theory Spec2Isabelle
  imports Complex_Main "HOL-Library.Sublist" "HOL-Library.Monad_Syntax" "HOL-Library.AList"
begin

section \<open>Python values and exceptions\<close>

text \<open>
  The values that travel between the providers and the fetchers are parsed JSON:
  \<open>None\<close>, booleans, integers, strings, lists and dictionaries. A dictionary is an
  association list read with \<open>map_of\<close>. JSON numbers with a fraction do not occur in
  the fields the fetchers read and are not part of the model. Strings are lists of
  8-bit characters, so \<open>length\<close> agrees with Python's \<open>len\<close> on ASCII text.
\<close>

datatype json =
    JNull
  | JBool bool
  | JInt int
  | JStr string
  | JList "json list"
  | JObj "(string \<times> json) list"

text \<open>
  The exceptions of the source that the model tracks. \<open>SchemaViolation\<close> is not a
  Python exception: it marks a provider value whose type contradicts the GraphQL schema
  of the query (a \<open>totalCount\<close> that is not an integer), where the model stops instead of
  storing a value the typed record cannot hold.
\<close>

datatype py_error =
    KeyError
  | TypeError
  | AttributeError
  | JSONDecodeError
  | GithubException
  | SchemaViolation

text \<open>Python truthiness, as used by \<open>while x\<close>, \<open>if x\<close> and \<open>x and y\<close>.\<close>

fun truthy :: "json \<Rightarrow> bool" where
  "truthy JNull = False"
| "truthy (JBool b) = b"
| "truthy (JInt n) = (n \<noteq> 0)"
| "truthy (JStr s) = (s \<noteq> [])"
| "truthy (JList xs) = (xs \<noteq> [])"
| "truthy (JObj kvs) = (kvs \<noteq> [])"

text \<open>\<open>d[key]\<close> with a string key: only a dictionary accepts it.\<close>

fun getitem :: "json \<Rightarrow> string \<Rightarrow> py_error + json" where
  "getitem (JObj kvs) key = (case map_of kvs key of None \<Rightarrow> Inl KeyError | Some v \<Rightarrow> Inr v)"
| "getitem _ key = Inl TypeError"

text \<open>\<open>d.get(key, default)\<close>: only a dictionary has the method.\<close>

fun dict_get :: "json \<Rightarrow> string \<Rightarrow> json \<Rightarrow> py_error + json" where
  "dict_get (JObj kvs) key dflt = (case map_of kvs key of None \<Rightarrow> Inr dflt | Some v \<Rightarrow> Inr v)"
| "dict_get _ key dflt = Inl AttributeError"

text \<open>\<open>len(x)\<close>.\<close>

fun py_len :: "json \<Rightarrow> py_error + int" where
  "py_len (JStr s) = Inr (int (length s))"
| "py_len (JList xs) = Inr (int (length xs))"
| "py_len (JObj kvs) = Inr (int (length kvs))"
| "py_len _ = Inl TypeError"

text \<open>\<open>for x in v\<close>: the items a loop over the value visits.\<close>

fun py_iter :: "json \<Rightarrow> py_error + json list" where
  "py_iter (JList xs) = Inr xs"
| "py_iter (JObj kvs) = Inr (map (\<lambda>kv. JStr (fst kv)) kvs)"
| "py_iter (JStr s) = Inr (map (\<lambda>c. JStr [c]) s)"
| "py_iter _ = Inl TypeError"

section \<open>Constants (constants.py)\<close>

definition MAX_CONTRIBUTOR_RETRIES :: nat where
  "MAX_CONTRIBUTOR_RETRIES = 20"

definition CONTRIBUTOR_RETRY_SLEEP_SECONDS :: nat where
  "CONTRIBUTOR_RETRY_SLEEP_SECONDS = 10"

definition RATE_LIMIT_SLEEP_SECONDS :: nat where
  "RATE_LIMIT_SLEEP_SECONDS = 60"

definition EXCLUDED_REPO_PREFIXES :: "string list" where
  "EXCLUDED_REPO_PREFIXES = [''slides-'', ''course-'']"

section \<open>The paginated query client (github_client.py)\<close>

text \<open>
  \<open>GitHubClient.graphql\<close> is the provider: given its own state, the query and the
  variables it returns the page, raises \<open>RateLimitExceededException\<close> or raises
  something else. The provider's state is threaded through the calls, so that a
  provider may answer the same request differently the second time.
\<close>

datatype response =
    Data json
  | RateLimitExceededException
  | OtherException py_error

type_synonym variables = "(string \<times> json) list"

type_synonym 's graphql = "'s \<Rightarrow> string \<Rightarrow> variables \<Rightarrow> response \<times> 's"

text \<open>
  What one consumption of the generator does, in order: the requests it issues (with the
  variables sent), the sleeps, and the pages it yields. It ends by returning
  (\<open>StopIteration\<close> for the consumer) or by raising.
\<close>

datatype event = Request variables | Sleep nat | Yield json

datatype outcome = StopIteration | Raised py_error

type_synonym 's run = "event list \<times> outcome \<times> 's"

text \<open>The loop \<open>for key in path_to_connection: data = data[key]\<close>.\<close>

fun navigate :: "json \<Rightarrow> string list \<Rightarrow> py_error + json" where
  "navigate data [] = Inr data"
| "navigate data (key # path) =
     (case getitem data key of Inl e \<Rightarrow> Inl e | Inr d \<Rightarrow> navigate d path)"

text \<open>
  The three statements after the \<open>yield\<close>: the new \<open>has_next_page\<close> and the new
  \<open>cursor\<close>, read from \<open>pageInfo\<close> with their defaults.
\<close>

definition page_info :: "json \<Rightarrow> py_error + (json \<times> json)" where
  "page_info data =
     (case dict_get data ''pageInfo'' (JObj []) of
        Inl e \<Rightarrow> Inl e
      | Inr pinfo \<Rightarrow>
          (case dict_get pinfo ''hasNextPage'' (JBool False) of
             Inl e \<Rightarrow> Inl e
           | Inr has_next_page \<Rightarrow>
               (case dict_get pinfo ''endCursor'' JNull of
                  Inl e \<Rightarrow> Inl e
                | Inr cursor \<Rightarrow> Inr (has_next_page, cursor))))"

definition emit :: "event list \<Rightarrow> 's run \<Rightarrow> 's run" where
  "emit es r = (es @ fst r, snd r)"

text \<open>
  The \<open>while has_next_page\<close> loop. It runs for as long as the provider keeps
  announcing pages or rate limits; a run that never ends is \<open>None\<close>.
\<close>

partial_function (option) paginate_loop ::
  "'s graphql \<Rightarrow> string \<Rightarrow> variables \<Rightarrow> string list \<Rightarrow> 's \<Rightarrow> json \<Rightarrow> json \<Rightarrow> 's run option"
where
  "paginate_loop gql query vars path_to_connection s cursor has_next_page =
     (if \<not> truthy has_next_page then Some ([], StopIteration, s)
      else
        let vars_with_cursor = AList.update ''cursor'' cursor vars in
        case gql s query vars_with_cursor of
          (RateLimitExceededException, s') \<Rightarrow>
            do {
              r \<leftarrow> paginate_loop gql query vars path_to_connection s' cursor has_next_page;
              Some (emit [Request vars_with_cursor, Sleep RATE_LIMIT_SLEEP_SECONDS] r)
            }
        | (OtherException e, s') \<Rightarrow> Some ([Request vars_with_cursor], Raised e, s')
        | (Data result, s') \<Rightarrow>
            (case navigate result path_to_connection of
               Inl e \<Rightarrow> Some ([Request vars_with_cursor], Raised e, s')
             | Inr data \<Rightarrow>
                 (case page_info data of
                    Inl e \<Rightarrow> Some ([Request vars_with_cursor, Yield result], Raised e, s')
                  | Inr (has_next_page', cursor') \<Rightarrow>
                      do {
                        r \<leftarrow> paginate_loop gql query vars path_to_connection s' cursor' has_next_page';
                        Some (emit [Request vars_with_cursor, Yield result] r)
                      })))"

definition graphql_paginate ::
  "'s graphql \<Rightarrow> 's \<Rightarrow> string \<Rightarrow> variables \<Rightarrow> string list \<Rightarrow> 's run option" where
  "graphql_paginate gql s query vars path_to_connection =
     paginate_loop gql query vars path_to_connection s JNull (JBool True)"

text \<open>Readings of a run: the pages yielded, the variables requested, the sleeps.\<close>

fun yielded :: "event list \<Rightarrow> json list" where
  "yielded [] = []"
| "yielded (Yield page # es) = page # yielded es"
| "yielded (e # es) = yielded es"

fun requested :: "event list \<Rightarrow> variables list" where
  "requested [] = []"
| "requested (Request v # es) = v # requested es"
| "requested (e # es) = requested es"

fun slept :: "event list \<Rightarrow> nat list" where
  "slept [] = []"
| "slept (Sleep d # es) = d # slept es"
| "slept (e # es) = slept es"

subsection \<open>Provider stubs\<close>

text \<open>
  A stub that answers every request with a page and never fails: a function of the
  query and the variables.
\<close>

definition stub_graphql :: "(string \<Rightarrow> variables \<Rightarrow> json) \<Rightarrow> unit graphql" where
  "stub_graphql stub s query vars = (Data (stub query vars), s)"

text \<open>
  The stub returns a finite chain of pages, entered with \<open>cursor\<close>: the answer to the
  request with that cursor is the first page, whose connection (a dictionary at the
  path) either announces a next page (\<open>hasNextPage\<close> true; the chain goes on from its
  \<open>endCursor\<close>, \<open>None\<close> when there is none) or is the last one (\<open>hasNextPage\<close>
  false or absent, or no \<open>pageInfo\<close> at all).
\<close>

fun page_chain ::
  "(string \<Rightarrow> variables \<Rightarrow> json) \<Rightarrow> string \<Rightarrow> variables \<Rightarrow> string list \<Rightarrow> json \<Rightarrow> json list \<Rightarrow> bool"
where
  "page_chain stub query vars path cursor [] = False"
| "page_chain stub query vars path cursor (page # pages) =
     (stub query (AList.update ''cursor'' cursor vars) = page \<and>
      (case navigate page path of
         Inr (JObj conn) \<Rightarrow>
           (case map_of conn ''pageInfo'' of
              None \<Rightarrow> pages = []
            | Some (JObj pinfo) \<Rightarrow>
                (case map_of pinfo ''hasNextPage'' of
                   None \<Rightarrow> pages = []
                 | Some (JBool False) \<Rightarrow> pages = []
                 | Some (JBool True) \<Rightarrow>
                     pages \<noteq> [] \<and>
                     page_chain stub query vars path
                       (case map_of pinfo ''endCursor'' of None \<Rightarrow> JNull | Some c \<Rightarrow> c) pages
                 | Some _ \<Rightarrow> False)
            | Some _ \<Rightarrow> False)
       | _ \<Rightarrow> False))"

text \<open>
  What the loop reads from a page it has yielded: the cursor for the next request, and
  whether it goes on.
\<close>

definition end_cursor :: "string list \<Rightarrow> json \<Rightarrow> json" where
  "end_cursor path page =
     (case navigate page path of
        Inl e \<Rightarrow> JNull
      | Inr data \<Rightarrow> (case page_info data of Inl e \<Rightarrow> JNull | Inr (h, c) \<Rightarrow> c))"

definition announces_next :: "string list \<Rightarrow> json \<Rightarrow> bool" where
  "announces_next path page =
     (case navigate page path of
        Inl e \<Rightarrow> False
      | Inr data \<Rightarrow> (case page_info data of Inl e \<Rightarrow> False | Inr (h, c) \<Rightarrow> truthy h))"

fun chain_trace :: "variables \<Rightarrow> string list \<Rightarrow> json \<Rightarrow> json list \<Rightarrow> event list" where
  "chain_trace vars path cursor [] = []"
| "chain_trace vars path cursor (page # pages) =
     Request (AList.update ''cursor'' cursor vars) # Yield page #
     chain_trace vars path (end_cursor path page) pages"

text \<open>A two-page organisation, as the repository queries page through it.\<close>

definition repositories_page :: "json list \<Rightarrow> bool \<Rightarrow> json \<Rightarrow> json" where
  "repositories_page nodes has_next cursor =
     JObj [(''organization'', JObj [(''repositories'', JObj
       [(''pageInfo'', JObj [(''hasNextPage'', JBool has_next), (''endCursor'', cursor)]),
        (''nodes'', JList nodes)])])]"

definition sample_page1 :: json where
  "sample_page1 = repositories_page [JObj [(''name'', JStr ''a'')]] True (JStr ''c1'')"

definition sample_page2 :: json where
  "sample_page2 = repositories_page [JObj [(''name'', JStr ''b'')]] False JNull"

definition sample_stub :: "string \<Rightarrow> variables \<Rightarrow> json" where
  "sample_stub query vars =
     (if map_of vars ''cursor'' = Some (JStr ''c1'') then sample_page2 else sample_page1)"

definition sample_vars :: variables where
  "sample_vars = [(''organization'', JStr ''org'')]"

definition repositories_path :: "string list" where
  "repositories_path = [''organization'', ''repositories'']"


text \<open>
  A stub that signals rate-limit exhaustion on the requests its script marks \<open>True\<close>,
  one script entry per request, and otherwise answers like the underlying stub (a page,
  or an exception other than the rate limit). Once the script is used up, no request is
  rate-limited any more, so every rate-limited request eventually succeeds. The empty
  script is the run without any rate-limit signal.
\<close>

definition flaky_graphql :: "(string \<Rightarrow> variables \<Rightarrow> py_error + json) \<Rightarrow> bool list graphql" where
  "flaky_graphql stub script query vars =
     (let answer = (case stub query vars of Inl e \<Rightarrow> OtherException e | Inr page \<Rightarrow> Data page)
      in case script of
           [] \<Rightarrow> (answer, [])
         | limited # rest \<Rightarrow> (if limited then RateLimitExceededException else answer, rest))"

text \<open>
  A run with its retries taken out: a request that is followed by a sleep of the cooldown
  and then by the same request again is dropped together with the sleep.
\<close>

fun retried :: "event \<Rightarrow> event list \<Rightarrow> bool" where
  "retried (Request v) (Sleep d # Request v' # es) = (d = RATE_LIMIT_SLEEP_SECONDS \<and> v' = v)"
| "retried e es = False"

fun strip_retries :: "event list \<Rightarrow> event list" where
  "strip_retries [] = []"
| "strip_retries (e # es) =
     (if retried e es then strip_retries (tl es) else e # strip_retries es)"

text \<open>The rate-limit signals a run has received: the marked entries of the script it used up.\<close>

definition signals :: "bool list \<Rightarrow> bool list \<Rightarrow> nat" where
  "signals script rest = length (filter id (take (length script - length rest) script))"

definition sample_flaky :: "string \<Rightarrow> variables \<Rightarrow> py_error + json" where
  "sample_flaky query vars = Inr (sample_stub query vars)"

section \<open>Configuration and the filtering policy (models.py, fetchers/utils.py)\<close>

record Config =
  organization :: string
  include_forks :: bool
  include_archived :: bool
  since :: "string option"

text \<open>
  \<open>load_excluded_repos\<close> reads \<open>excluded_repos.json\<close> when the file exists (here: its
  list of names) and is cached with \<open>lru_cache\<close>: every later call in the process returns
  the value of the first one. The functions below take that cached value as \<open>excluded\<close>.
\<close>

definition load_excluded_repos :: "string list option \<Rightarrow> string list" where
  "load_excluded_repos excluded_file = (case excluded_file of None \<Rightarrow> [] | Some names \<Rightarrow> names)"

definition should_exclude_repo :: "string list \<Rightarrow> string \<Rightarrow> Config \<Rightarrow> bool" where
  "should_exclude_repo excluded repo_name config =
     (repo_name \<in> set excluded \<or> list_ex (\<lambda>p. prefix p repo_name) EXCLUDED_REPO_PREFIXES)"

text \<open>
  The loop over the nodes of one page in \<open>query_repo_names\<close> (the same loop is in
  \<open>add_repositories_to_result\<close>). A node is \<open>None\<close> or a dictionary; a name that is
  not a string has no \<open>startswith\<close>.
\<close>

fun filter_nodes :: "string list \<Rightarrow> Config \<Rightarrow> json list \<Rightarrow> json list \<Rightarrow> py_error + json list" where
  "filter_nodes excluded config [] all_repos = Inr all_repos"
| "filter_nodes excluded config (repo # nodes) all_repos =
     (if repo = JNull then filter_nodes excluded config nodes all_repos
      else
        case dict_get repo ''isArchived'' (JBool False) of
          Inl e \<Rightarrow> Inl e
        | Inr is_archived \<Rightarrow>
            (case dict_get repo ''isFork'' (JBool False) of
               Inl e \<Rightarrow> Inl e
             | Inr is_fork \<Rightarrow>
                 if truthy is_archived \<and> \<not> include_archived config
                 then filter_nodes excluded config nodes all_repos
                 else if truthy is_fork \<and> \<not> include_forks config
                 then filter_nodes excluded config nodes all_repos
                 else
                   (case getitem repo ''name'' of
                      Inl e \<Rightarrow> Inl e
                    | Inr (JStr repo_name) \<Rightarrow>
                        if should_exclude_repo excluded repo_name config
                        then filter_nodes excluded config nodes all_repos
                        else filter_nodes excluded config nodes (all_repos @ [repo])
                    | Inr _ \<Rightarrow> Inl AttributeError)))"

text \<open>
  \<open>query_repo_names\<close>, given the pages that \<open>client.graphql_paginate\<close> yields before it
  returns: the nodes of every page go through the loop, in order.
\<close>

fun query_repo_names_pages ::
  "string list \<Rightarrow> Config \<Rightarrow> json list \<Rightarrow> json list \<Rightarrow> py_error + json list" where
  "query_repo_names_pages excluded config [] all_repos = Inr all_repos"
| "query_repo_names_pages excluded config (result # pages) all_repos =
     (case navigate result [''organization'', ''repositories'', ''nodes''] of
        Inl e \<Rightarrow> Inl e
      | Inr nodes \<Rightarrow>
          (case py_iter nodes of
             Inl e \<Rightarrow> Inl e
           | Inr repos \<Rightarrow>
               (case filter_nodes excluded config repos all_repos of
                  Inl e \<Rightarrow> Inl e
                | Inr all_repos' \<Rightarrow> query_repo_names_pages excluded config pages all_repos')))"

definition query_repo_names :: "string list \<Rightarrow> Config \<Rightarrow> json list \<Rightarrow> py_error + json list" where
  "query_repo_names excluded config pages = query_repo_names_pages excluded config pages []"

definition repo_node :: "string \<Rightarrow> bool \<Rightarrow> bool \<Rightarrow> json" where
  "repo_node name archived fork =
     JObj [(''name'', JStr name), (''isArchived'', JBool archived), (''isFork'', JBool fork)]"

definition default_config :: Config where
  "default_config =
     \<lparr>organization = ''org'', include_forks = False, include_archived = False, since = None\<rparr>"

section \<open>The contributor poller (github_client.py, fetchers/repository.py)\<close>

text \<open>
  \<open>GitHubClient.rest_request\<close>: the requester returns the status and the raw body of the
  response (a string), or raises \<open>GithubException\<close> (\<open>None\<close> here), which becomes the
  status 500 without data. The requester's state is threaded through the calls.
\<close>

type_synonym rest_response = "int \<times> string option"

type_synonym 's requester = "'s \<Rightarrow> string \<Rightarrow> string \<Rightarrow> (int \<times> string) option \<times> 's"

type_synonym 's rest = "'s \<Rightarrow> string \<Rightarrow> string \<Rightarrow> rest_response \<times> 's"

definition rest_request :: "'s requester \<Rightarrow> 's rest" where
  "rest_request requestJson s method url =
     (case requestJson s method url of
        (Some (status, data), s') \<Rightarrow> ((status, Some data), s')
      | (None, s') \<Rightarrow> ((500, None), s'))"

text \<open>What the poller does, in order: the URLs it requests and the seconds it sleeps.\<close>

datatype poll_event = Get string | Wait nat

record 's poll =
  contributors_map :: "string \<rightharpoonup> int"
  pending_repos :: "string list"
  trace :: "poll_event list"
  provider :: 's

definition stats_url :: "string \<Rightarrow> string \<Rightarrow> string" where
  "stats_url org repo_name = ''/repos/'' @ org @ ''/'' @ repo_name @ ''/stats/contributors''"

text \<open>\<open>if data\<close> for the body: \<open>None\<close> and the empty string are false.\<close>

definition has_data :: "string option \<Rightarrow> bool" where
  "has_data data = (case data of None \<Rightarrow> False | Some body \<Rightarrow> body \<noteq> [])"

text \<open>
  The first loop of \<open>_fetch_all_contributors\<close>. The repositories are given by their
  names, the only field the function reads. \<open>json.loads\<close> is the parameter \<open>loads\<close>:
  it returns the parsed value or raises. Every body that is not empty is parsed, whatever
  the status, before the status is looked at.
\<close>

fun initial_pass ::
  "(string \<Rightarrow> py_error + json) \<Rightarrow> 's rest \<Rightarrow> string \<Rightarrow> string list \<Rightarrow> 's poll \<Rightarrow> py_error + 's poll"
where
  "initial_pass loads client org [] st = Inr st"
| "initial_pass loads client org (repo_name # repos) st =
     (let url = stats_url org repo_name in
      case client (provider st) ''GET'' url of
        ((status, data), s') \<Rightarrow>
          (let st' = st\<lparr>trace := trace st @ [Get url], provider := s'\<rparr> in
           case (if has_data data then loads (the data) else Inr JNull) of
             Inl e \<Rightarrow> Inl e
           | Inr data_dict \<Rightarrow>
               if status = 200 \<and> truthy data_dict then
                 (case py_len data_dict of
                    Inl e \<Rightarrow> Inl e
                  | Inr n \<Rightarrow>
                      initial_pass loads client org repos
                        (st'\<lparr>contributors_map := (contributors_map st')(repo_name \<mapsto> n)\<rparr>))
               else if status = 202 then
                 initial_pass loads client org repos
                   (st'\<lparr>pending_repos := pending_repos st' @ [repo_name]\<rparr>)
               else
                 initial_pass loads client org repos
                   (st'\<lparr>contributors_map := (contributors_map st')(repo_name \<mapsto> 0)\<rparr>)))"

text \<open>
  One retry pass: the \<open>for repo_name in pending_repos\<close> loop inside the \<open>while\<close>. Here
  the body is not parsed: \<open>len(data)\<close> is taken of the raw string.
\<close>

fun retry_pass ::
  "'s rest \<Rightarrow> string \<Rightarrow> string list \<Rightarrow> string list \<Rightarrow> 's poll \<Rightarrow> string list \<times> 's poll"
where
  "retry_pass client org [] still_pending st = (still_pending, st)"
| "retry_pass client org (repo_name # repos) still_pending st =
     (let url = stats_url org repo_name in
      case client (provider st) ''GET'' url of
        ((status, data), s') \<Rightarrow>
          (let st' = st\<lparr>trace := trace st @ [Get url], provider := s'\<rparr> in
           if status = 200 \<and> has_data data then
             retry_pass client org repos still_pending
               (st'\<lparr>contributors_map :=
                      (contributors_map st')(repo_name \<mapsto> int (length (the data)))\<rparr>)
           else if status = 202 then
             retry_pass client org repos (still_pending @ [repo_name]) st'
           else
             retry_pass client org repos still_pending
               (st'\<lparr>contributors_map := (contributors_map st')(repo_name \<mapsto> 0)\<rparr>)))"

text \<open>The \<open>while pending_repos and retries_remaining > 0\<close> loop: one sleep, then one pass.\<close>

fun retry_loop :: "'s rest \<Rightarrow> string \<Rightarrow> nat \<Rightarrow> 's poll \<Rightarrow> 's poll" where
  "retry_loop client org retries_remaining st =
     (if pending_repos st \<noteq> [] \<and> retries_remaining > 0 then
        (let st1 = st\<lparr>trace := trace st @ [Wait CONTRIBUTOR_RETRY_SLEEP_SECONDS]\<rparr> in
         case retry_pass client org (pending_repos st1) [] st1 of
           (still_pending, st2) \<Rightarrow>
             retry_loop client org (retries_remaining - 1) (st2\<lparr>pending_repos := still_pending\<rparr>))
      else st)"

text \<open>The last loop: what is still pending is set to 0.\<close>

fun timed_out :: "string list \<Rightarrow> (string \<rightharpoonup> int) \<Rightarrow> (string \<rightharpoonup> int)" where
  "timed_out [] m = m"
| "timed_out (repo_name # repos) m = timed_out repos (m(repo_name \<mapsto> 0))"

definition fetch_all_contributors ::
  "(string \<Rightarrow> py_error + json) \<Rightarrow> 's rest \<Rightarrow> 's \<Rightarrow> string \<Rightarrow> string list \<Rightarrow> py_error + 's poll" where
  "fetch_all_contributors loads client s org repos =
     (case initial_pass loads client org repos
             \<lparr>contributors_map = Map.empty, pending_repos = [], trace = [], provider = s\<rparr> of
        Inl e \<Rightarrow> Inl e
      | Inr st \<Rightarrow>
          (let st' = retry_loop client org MAX_CONTRIBUTOR_RETRIES st in
           Inr (st'\<lparr>contributors_map := timed_out (pending_repos st') (contributors_map st')\<rparr>)))"

text \<open>Readings of the result: the mapping returned, the requests sent to a URL, the sleeps.\<close>

definition returned :: "py_error + 's poll \<Rightarrow> (string \<rightharpoonup> int) option" where
  "returned r = (case r of Inl e \<Rightarrow> None | Inr st \<Rightarrow> Some (contributors_map st))"

fun gets :: "string \<Rightarrow> poll_event list \<Rightarrow> nat" where
  "gets url [] = 0"
| "gets url (Get u # es) = (if u = url then Suc (gets url es) else gets url es)"
| "gets url (Wait d # es) = gets url es"

fun waits :: "poll_event list \<Rightarrow> nat list" where
  "waits [] = []"
| "waits (Wait d # es) = d # waits es"
| "waits (Get u # es) = waits es"

definition waits_of :: "py_error + 's poll \<Rightarrow> nat list" where
  "waits_of r = (case r of Inl e \<Rightarrow> [] | Inr st \<Rightarrow> waits (trace st))"

subsection \<open>Provider stubs\<close>

text \<open>
  A REST stub whose answer depends on the URL and on how many times the URL has been
  requested before; its state counts the requests per URL.
\<close>

definition counting_rest :: "(string \<Rightarrow> nat \<Rightarrow> rest_response) \<Rightarrow> (string \<Rightarrow> nat) rest" where
  "counting_rest behaviour counts method url =
     (behaviour url (counts url), counts(url := Suc (counts url)))"

text \<open>
  Three units: \<open>a\<close> is ready at once, \<open>b\<close> is pending on the first request and on the
  first retry and ready on the second retry, \<open>c\<close> is pending for ever.
\<close>

definition three_units ::
  "string \<Rightarrow> string \<Rightarrow> string \<Rightarrow> string \<Rightarrow> string \<Rightarrow> string \<Rightarrow> string \<Rightarrow> nat \<Rightarrow> rest_response" where
  "three_units org a b c body_a body_b url n =
     (if url = stats_url org a then (200, Some body_a)
      else if url = stats_url org b then (if n < 2 then (202, None) else (200, Some body_b))
      else if url = stats_url org c then (202, None)
      else (404, None))"

text \<open>\<open>json.loads\<close> on the bodies used below; any other text is not JSON here.\<close>

definition sample_loads :: "string \<Rightarrow> py_error + json" where
  "sample_loads body =
     (if body = ''[{},{}]'' then Inr (JList [JObj [], JObj []])
      else if body = ''[{}]'' then Inr (JList [JObj []])
      else Inl JSONDecodeError)"

text \<open>A unit that is pending on the first request and ready, with the body, on the next.\<close>

definition ready_on_retry :: "string \<Rightarrow> string \<Rightarrow> nat \<Rightarrow> rest_response" where
  "ready_on_retry body url n = (if n = 0 then (202, None) else (200, Some body))"

definition ready_at_once :: "string \<Rightarrow> string \<Rightarrow> nat \<Rightarrow> rest_response" where
  "ready_at_once body url n = (200, Some body)"

text \<open>
  An error answer whose body is not JSON, at once or after a first answer of pending;
  and a requester whose every request raises \<open>GithubException\<close>.
\<close>

definition bad_gateway :: "string \<Rightarrow> nat \<Rightarrow> rest_response" where
  "bad_gateway url n = (502, Some ''<html>Bad Gateway</html>'')"

definition bad_gateway_on_retry :: "string \<Rightarrow> nat \<Rightarrow> rest_response" where
  "bad_gateway_on_retry url n =
     (if n = 0 then (202, None) else (502, Some ''<html>Bad Gateway</html>''))"

definition failing_requester :: "unit requester" where
  "failing_requester s method url = (None, s)"

definition no_requests :: "string \<Rightarrow> nat" where
  "no_requests url = 0"

section \<open>The report and the enrichment steps (models.py, fetchers)\<close>

record RepositoryResult =
  repository_name :: string
  repo_name_with_owner :: string
  license_name :: string
  topics :: "string list"
  projects_v2_count :: int
  discussions_count :: int
  forks_count :: int
  total_issues_count :: int
  open_issues_count :: int
  closed_issues_count :: int
  total_pull_requests_count :: int
  open_pull_requests_count :: int
  closed_pull_requests_count :: int
  merged_pull_requests_count :: int
  watchers_count :: int
  stars_count :: int
  collaborators_count :: int
  total_download_count :: int
  monthly_download_count :: int
  weekly_download_count :: int
  daily_download_count :: int
  contributors_count :: int
  conda_total_downloads :: int
  conda_monthly_downloads :: int
  discussions_enabled :: bool
  projects_enabled :: bool
  issues_enabled :: bool
  open_issues_average_age :: real
  open_issues_median_age :: real
  closed_issues_average_age :: real
  closed_issues_median_age :: real
  issues_response_average_age :: real
  issues_response_median_age :: real

text \<open>
  \<open>OrgInfo\<close> and \<open>Meta\<close>. Their fields carry a prefix (\<open>info_\<close>, \<open>meta_\<close>):
  \<open>created_at\<close> is a field of both, and \<open>name\<close> is needed as a variable.
\<close>

record OrgInfo =
  info_login :: string
  info_name :: string
  info_description :: "string option"
  info_created_at :: string
  info_repositories_count :: int

record Meta =
  meta_created_at :: string

record Result =
  meta :: Meta
  org_info :: OrgInfo
  repositories :: "string \<rightharpoonup> RepositoryResult"

text \<open>The dataclass defaults.\<close>

definition default_repository :: RepositoryResult where
  "default_repository =
     \<lparr>repository_name = '''', repo_name_with_owner = '''', license_name = '''', topics = [],
      projects_v2_count = 0, discussions_count = 0, forks_count = 0, total_issues_count = 0,
      open_issues_count = 0, closed_issues_count = 0, total_pull_requests_count = 0,
      open_pull_requests_count = 0, closed_pull_requests_count = 0,
      merged_pull_requests_count = 0, watchers_count = 0, stars_count = 0,
      collaborators_count = 0, total_download_count = 0, monthly_download_count = 0,
      weekly_download_count = 0, daily_download_count = 0, contributors_count = 0,
      conda_total_downloads = 0, conda_monthly_downloads = 0, discussions_enabled = False,
      projects_enabled = False, issues_enabled = False, open_issues_average_age = 0,
      open_issues_median_age = 0, closed_issues_average_age = 0, closed_issues_median_age = 0,
      issues_response_average_age = 0, issues_response_median_age = 0\<rparr>"

definition default_result :: Result where
  "default_result =
     \<lparr>meta = \<lparr>meta_created_at = ''''\<rparr>,
      org_info = \<lparr>info_login = '''', info_name = '''', info_description = None,
                  info_created_at = '''', info_repositories_count = 0\<rparr>,
      repositories = Map.empty\<rparr>"

text \<open>
  A step that raises does not hand the report on (the pipeline has no handler), so a step
  is a function from the provider's response and the report to the report or the
  exception. \<open>then_do\<close> chains statements that may raise.
\<close>

definition then_do :: "py_error + 'a \<Rightarrow> ('a \<Rightarrow> py_error + 'b) \<Rightarrow> py_error + 'b" where
  "then_do r f = (case r of Inl e \<Rightarrow> Inl e | Inr x \<Rightarrow> f x)"

text \<open>
  \<open>repo[key]["totalCount"]\<close>, stored in an integer field. The schema of the queries
  types every \<open>totalCount\<close> as \<open>Int!\<close>.
\<close>

definition as_int :: "json \<Rightarrow> py_error + int" where
  "as_int v = (case v of JInt n \<Rightarrow> Inr n | _ \<Rightarrow> Inl SchemaViolation)"

definition total_count :: "json \<Rightarrow> string \<Rightarrow> py_error + int" where
  "total_count repo key =
     then_do (getitem repo key) (\<lambda>conn. then_do (getitem conn ''totalCount'') as_int)"

text \<open>
  \<open>should_exclude_repo(repo["name"], config)\<close> on a node: a name that is not a string is
  in no list of strings and has no \<open>startswith\<close>.
\<close>

definition node_name :: "json \<Rightarrow> py_error + string" where
  "node_name repo =
     then_do (getitem repo ''name'')
       (\<lambda>v. case v of JStr repo_name \<Rightarrow> Inr repo_name | _ \<Rightarrow> Inl AttributeError)"

text \<open>
  \<open>add_issue_and_pr_data\<close>, given \<open>data_result\<close>, the nodes that
  \<open>_get_issue_and_pr_data\<close> collected from the pages.
\<close>

fun add_issue_and_pr_data ::
  "string list \<Rightarrow> Config \<Rightarrow> json list \<Rightarrow> Result \<Rightarrow> py_error + Result" where
  "add_issue_and_pr_data excluded config [] result = Inr result"
| "add_issue_and_pr_data excluded config (repo # data_result) result =
     then_do (node_name repo) (\<lambda>repo_name.
       if should_exclude_repo excluded repo_name config
       then add_issue_and_pr_data excluded config data_result result
       else case repositories result repo_name of
         None \<Rightarrow> add_issue_and_pr_data excluded config data_result result
       | Some record \<Rightarrow>
           then_do (total_count repo ''totalIssues'') (\<lambda>total_issues.
           then_do (total_count repo ''openIssues'') (\<lambda>open_issues.
           then_do (total_count repo ''closedIssues'') (\<lambda>closed_issues.
           then_do (total_count repo ''totalPullRequests'') (\<lambda>total_prs.
           then_do (total_count repo ''openPullRequests'') (\<lambda>open_prs.
           then_do (total_count repo ''closedPullRequests'') (\<lambda>closed_prs.
           then_do (total_count repo ''mergedPullRequests'') (\<lambda>merged_prs.
             add_issue_and_pr_data excluded config data_result
               (result\<lparr>repositories := (repositories result)(repo_name \<mapsto>
                  record\<lparr>total_issues_count := total_issues,
                         open_issues_count := open_issues,
                         closed_issues_count := closed_issues,
                         total_pull_requests_count := total_prs,
                         open_pull_requests_count := open_prs,
                         closed_pull_requests_count := closed_prs,
                         merged_pull_requests_count := merged_prs\<rparr>)\<rparr>)))))))))"

text \<open>\<open>add_discussion_data\<close>, given the nodes that \<open>_query_for_discussions\<close> collected.\<close>

fun add_discussion_data ::
  "string list \<Rightarrow> Config \<Rightarrow> json list \<Rightarrow> Result \<Rightarrow> py_error + Result" where
  "add_discussion_data excluded config [] result = Inr result"
| "add_discussion_data excluded config (repo # data_result) result =
     then_do (node_name repo) (\<lambda>repo_name.
       if should_exclude_repo excluded repo_name config
       then add_discussion_data excluded config data_result result
       else case repositories result repo_name of
         None \<Rightarrow> add_discussion_data excluded config data_result result
       | Some record \<Rightarrow>
           then_do (dict_get repo ''discussions'' (JObj [])) (\<lambda>discussions.
           then_do (dict_get discussions ''totalCount'' (JInt 0)) (\<lambda>v.
           then_do (as_int v) (\<lambda>discussions_count.
             add_discussion_data excluded config data_result
               (result\<lparr>repositories := (repositories result)(repo_name \<mapsto>
                  record\<lparr>discussions_count := discussions_count\<rparr>)\<rparr>)))))"

text \<open>
  \<open>add_downloads_pepy\<close>. \<open>output\<close> is what \<open>_query_projects_for_repositories\<close>
  returned: the repository name with the project data, for each project found.
  \<open>_process_download_numbers\<close> reads the clock to pick the days it sums, so it is the
  parameter \<open>process\<close>: the four numbers it returns for a project (the entries
  \<open>total\<close>, \<open>monthly\<close>, \<open>weekly\<close>, \<open>daily\<close> of its dictionary), or the exception.
\<close>

record download_numbers =
  processed_total :: int
  processed_monthly :: int
  processed_weekly :: int
  processed_daily :: int

fun pepy_loop ::
  "('d \<Rightarrow> py_error + download_numbers) \<Rightarrow> (string \<times> 'd) list \<Rightarrow> Result \<Rightarrow> py_error + Result" where
  "pepy_loop process [] result = Inr result"
| "pepy_loop process ((repo_name, data) # output) result =
     (case repositories result repo_name of
        None \<Rightarrow> pepy_loop process output result
      | Some record \<Rightarrow>
          then_do (process data) (\<lambda>processed.
            pepy_loop process output
              (result\<lparr>repositories := (repositories result)(repo_name \<mapsto>
                 record\<lparr>total_download_count := processed_total processed,
                        monthly_download_count := processed_monthly processed,
                        weekly_download_count := processed_weekly processed,
                        daily_download_count := processed_daily processed\<rparr>)\<rparr>)))"

definition add_downloads_pepy ::
  "('d \<Rightarrow> py_error + download_numbers) \<Rightarrow> string option \<Rightarrow> (string \<times> 'd) list \<Rightarrow> Result
     \<Rightarrow> py_error + Result" where
  "add_downloads_pepy process api_key output result =
     (if api_key = None \<or> api_key = Some [] then Inr result
      else pepy_loop process output result)"

text \<open>
  \<open>add_conda_data\<close>, from the point where the parquet files have been queried. The
  legacy names are read from \<open>brainglobe_legacy.json\<close> (here: its entries, when the file
  exists) for the organisation \<open>brainglobe\<close> only, keeping the entries whose value is a
  string. The query gives the two lists of rows, or fails with \<open>duckdb.Error\<close>, on which
  the step returns the report as it is.
\<close>

definition legacy_packages_map :: "Config \<Rightarrow> (string \<times> json) list option \<Rightarrow> (string \<rightharpoonup> string)" where
  "legacy_packages_map config legacy_file =
     (if organization config = ''brainglobe'' then
        (case legacy_file of
           None \<Rightarrow> Map.empty
         | Some legacy_packages \<Rightarrow>
             (\<lambda>key. case map_of legacy_packages key of Some (JStr v) \<Rightarrow> Some v | _ \<Rightarrow> None))
      else Map.empty)"

definition remap :: "(string \<rightharpoonup> string) \<Rightarrow> string \<Rightarrow> string" where
  "remap legacy pkg_name = (case legacy pkg_name of Some v \<Rightarrow> v | None \<Rightarrow> pkg_name)"

datatype conda_query = DuckdbError | Rows "(string \<times> int) list" "(string \<times> int) list"

fun conda_total_loop :: "(string \<rightharpoonup> string) \<Rightarrow> (string \<times> int) list \<Rightarrow> Result \<Rightarrow> Result" where
  "conda_total_loop legacy [] result = result"
| "conda_total_loop legacy ((pkg_name, total') # rows) result =
     (let pkg_name = remap legacy pkg_name in
      case repositories result pkg_name of
        None \<Rightarrow> conda_total_loop legacy rows result
      | Some record \<Rightarrow>
          conda_total_loop legacy rows
            (result\<lparr>repositories := (repositories result)(pkg_name \<mapsto>
               record\<lparr>conda_total_downloads := conda_total_downloads record + total'\<rparr>)\<rparr>))"

fun conda_monthly_loop :: "(string \<rightharpoonup> string) \<Rightarrow> (string \<times> int) list \<Rightarrow> Result \<Rightarrow> Result" where
  "conda_monthly_loop legacy [] result = result"
| "conda_monthly_loop legacy ((pkg_name, total') # rows) result =
     (let pkg_name = remap legacy pkg_name in
      case repositories result pkg_name of
        None \<Rightarrow> conda_monthly_loop legacy rows result
      | Some record \<Rightarrow>
          conda_monthly_loop legacy rows
            (result\<lparr>repositories := (repositories result)(pkg_name \<mapsto>
               record\<lparr>conda_monthly_downloads := conda_monthly_downloads record + total'\<rparr>)\<rparr>))"

definition add_conda_data ::
  "Config \<Rightarrow> (string \<times> json) list option \<Rightarrow> conda_query \<Rightarrow> Result \<Rightarrow> Result" where
  "add_conda_data config legacy_file query result =
     (case query of
        DuckdbError \<Rightarrow> result
      | Rows total_downloads last_month_downloads \<Rightarrow>
          conda_monthly_loop (legacy_packages_map config legacy_file) last_month_downloads
            (conda_total_loop (legacy_packages_map config legacy_file) total_downloads result))"

text \<open>
  The last loop of \<open>add_repositories_to_result\<close>: a new record for every repository that
  passed the filter, stored under its name, with the contributor count taken from the
  mapping the poller returned. The fields of the node are read with \<open>get\<close> and a
  default; as with \<open>totalCount\<close>, a value whose type contradicts the schema of the query
  stops the model.
\<close>

definition as_str :: "json \<Rightarrow> py_error + string" where
  "as_str v = (case v of JStr s \<Rightarrow> Inr s | _ \<Rightarrow> Inl SchemaViolation)"

definition as_bool :: "json \<Rightarrow> py_error + bool" where
  "as_bool v = (case v of JBool b \<Rightarrow> Inr b | _ \<Rightarrow> Inl SchemaViolation)"

text \<open>
  The comprehension \<open>[node["topic"]["name"] for node in nodes if node and
  node.get("topic")]\<close>.
\<close>

fun topic_names :: "json list \<Rightarrow> py_error + string list" where
  "topic_names [] = Inr []"
| "topic_names (node # nodes) =
     (if \<not> truthy node then topic_names nodes
      else
        then_do (dict_get node ''topic'' JNull) (\<lambda>topic.
          if \<not> truthy topic then topic_names nodes
          else
            then_do (getitem node ''topic'') (\<lambda>topic.
            then_do (getitem topic ''name'') (\<lambda>v.
            then_do (as_str v) (\<lambda>topic_name.
            then_do (topic_names nodes) (\<lambda>names. Inr (topic_name # names)))))))"

definition repository_topics :: "json \<Rightarrow> py_error + string list" where
  "repository_topics repo =
     then_do (dict_get repo ''repositoryTopics'' (JObj [])) (\<lambda>repository_topics.
     then_do (dict_get repository_topics ''nodes'' JNull) (\<lambda>nodes.
       if truthy nodes then
         then_do (getitem repo ''repositoryTopics'') (\<lambda>repository_topics.
         then_do (getitem repository_topics ''nodes'') (\<lambda>nodes.
         then_do (py_iter nodes) topic_names))
       else Inr []))"

definition repository_license :: "json \<Rightarrow> py_error + string" where
  "repository_license repo =
     then_do (dict_get repo ''licenseInfo'' JNull) (\<lambda>license_info.
       if \<not> truthy license_info then Inr ''No License''
       else
         then_do (getitem repo ''licenseInfo'') (\<lambda>license_info.
         then_do (dict_get license_info ''name'' JNull) (\<lambda>license_name.
           if \<not> truthy license_name then Inr ''No License''
           else
             then_do (getitem repo ''licenseInfo'') (\<lambda>license_info.
             then_do (getitem license_info ''name'') as_str))))"

text \<open>\<open>repo.get(key, {}).get("totalCount", 0)\<close>.\<close>

definition total_count_or_zero :: "json \<Rightarrow> string \<Rightarrow> py_error + int" where
  "total_count_or_zero repo key =
     then_do (dict_get repo key (JObj [])) (\<lambda>conn.
     then_do (dict_get conn ''totalCount'' (JInt 0)) as_int)"

definition repository_result :: "(string \<rightharpoonup> int) \<Rightarrow> string \<Rightarrow> json \<Rightarrow> py_error + RepositoryResult" where
  "repository_result contributors repo_name repo =
     then_do (repository_topics repo) (\<lambda>topics'.
     then_do (repository_license repo) (\<lambda>license_name'.
     then_do (then_do (dict_get repo ''nameWithOwner'' (JStr [])) as_str) (\<lambda>name_with_owner.
     then_do (then_do (dict_get repo ''forkCount'' (JInt 0)) as_int) (\<lambda>fork_count.
     then_do (total_count_or_zero repo ''watchers'') (\<lambda>watchers.
     then_do (then_do (dict_get repo ''stargazerCount'' (JInt 0)) as_int) (\<lambda>stargazer_count.
     then_do (then_do (dict_get repo ''hasIssuesEnabled'' (JBool False)) as_bool) (\<lambda>has_issues.
     then_do (then_do (dict_get repo ''hasProjectsEnabled'' (JBool False)) as_bool) (\<lambda>has_projects.
     then_do (then_do (dict_get repo ''hasDiscussionsEnabled'' (JBool False)) as_bool) (\<lambda>has_discussions.
     then_do (total_count_or_zero repo ''projectsV2'') (\<lambda>projects_v2.
       Inr (default_repository
              \<lparr>repository_name := repo_name,
               repo_name_with_owner := name_with_owner,
               license_name := license_name',
               topics := topics',
               forks_count := fork_count,
               watchers_count := watchers,
               stars_count := stargazer_count,
               collaborators_count :=
                 (case contributors repo_name of None \<Rightarrow> 0 | Some n \<Rightarrow> n),
               issues_enabled := has_issues,
               projects_enabled := has_projects,
               discussions_enabled := has_discussions,
               projects_v2_count := projects_v2\<rparr>)))))))))))"

fun build_repositories :: "(string \<rightharpoonup> int) \<Rightarrow> json list \<Rightarrow> Result \<Rightarrow> py_error + Result" where
  "build_repositories contributors [] result = Inr result"
| "build_repositories contributors (repo # all_repos) result =
     then_do (then_do (getitem repo ''name'') as_str) (\<lambda>repo_name.
     then_do (repository_result contributors repo_name repo) (\<lambda>entry.
       build_repositories contributors all_repos
         (result\<lparr>repositories := (repositories result)(repo_name \<mapsto> entry)\<rparr>)))"

text \<open>A reading of a step's outcome: a field of the record of one repository.\<close>

definition field_of :: "(RepositoryResult \<Rightarrow> 'a) \<Rightarrow> string \<Rightarrow> py_error + Result \<Rightarrow> 'a option" where
  "field_of field repo_name outcome =
     (case outcome of
        Inl e \<Rightarrow> None
      | Inr result \<Rightarrow> map_option field (repositories result repo_name))"

text \<open>
  A report with one repository, and a provider that still knows it under its former
  package name.
\<close>

definition sample_report :: Result where
  "sample_report =
     default_result\<lparr>repositories :=
       [''brainglobe-atlasapi'' \<mapsto>
          default_repository\<lparr>repository_name := ''brainglobe-atlasapi'',
                             collaborators_count := 4,
                             total_download_count := 5,
                             conda_total_downloads := 10\<rparr>]\<rparr>"

definition brainglobe_config :: Config where
  "brainglobe_config = default_config\<lparr>organization := ''brainglobe''\<rparr>"

definition sample_legacy_file :: "(string \<times> json) list" where
  "sample_legacy_file = [(''bg-atlasapi'', JStr ''brainglobe-atlasapi'')]"

definition sample_numbers :: download_numbers where
  "sample_numbers =
     \<lparr>processed_total = 7, processed_monthly = 3, processed_weekly = 2, processed_daily = 1\<rparr>"

definition sample_node :: json where
  "sample_node =
     JObj [(''name'', JStr ''brainglobe-atlasapi''),
           (''nameWithOwner'', JStr ''brainglobe/brainglobe-atlasapi''),
           (''stargazerCount'', JInt 12),
           (''licenseInfo'', JObj [(''name'', JStr ''BSD 3-Clause'')]),
           (''repositoryTopics'', JObj [(''nodes'',
              JList [JObj [(''topic'', JObj [(''name'', JStr ''atlas'')])], JNull])])]"

definition ghost_node :: json where
  "ghost_node = JObj [(''name'', JStr ''ghost'')]"

section \<open>The entry point (main.py)\<close>

text \<open>
  What \<open>main\<close> reads: the three environment variables and \<open>config.yml\<close>. Of the
  file it uses the entry \<open>organization\<close>, which is absent, one name or a list of names,
  and the two inclusion flags (false when absent). \<open>load_config\<close> returns an empty
  dictionary when there is no file, and what \<open>yaml.safe_load\<close> returns otherwise, which
  is \<open>None\<close> for a file without content. The lower time bound is taken as the string
  \<open>main\<close> computes from the entry \<open>since\<close> or from the clock.
\<close>

datatype yaml_organization = Absent | Name string | Names "string list"

record yaml_config =
  yaml_organization :: yaml_organization
  yaml_includeForks :: bool
  yaml_includeArchived :: bool

datatype config_file = NoFile | EmptyFile | Document yaml_config

definition load_config :: "config_file \<Rightarrow> yaml_config option" where
  "load_config file =
     (case file of
        NoFile \<Rightarrow>
          Some \<lparr>yaml_organization = Absent, yaml_includeForks = False,
                 yaml_includeArchived = False\<rparr>
      | EmptyFile \<Rightarrow> None
      | Document yaml \<Rightarrow> Some yaml)"

record environment =
  GRAPHQL_TOKEN :: "string option"
  PEPY_API_KEY :: "string option"
  ORGANIZATION_NAME :: "string option"
  config_yml :: config_file
  since_iso :: string

text \<open>
  What \<open>main\<close> does, in order. The log messages are named by what they say.
  \<open>RunPipeline\<close> is the call of \<open>run_pipeline\<close>, where all requests to the providers
  are made (constructing the client sends nothing); \<open>OutputResult\<close> writes the report of
  an organisation; \<open>Uncaught\<close> is an exception that leaves \<open>main\<close>, which ends the
  process with the status 1.
\<close>

datatype message =
    GraphqlTokenNotProvided
  | PepyApiKeyNotProvided
  | MissingSecretsSkippingFetch
  | StartingFetcher
  | OrganizationRequired
  | FetchingOrganization string
  | FinishedOrganization string

datatype main_event =
    Warning message
  | Error message
  | Info message
  | CreateClient string
  | LoadConfig
  | RunPipeline Config
  | OutputResult string
  | Uncaught py_error

text \<open>\<open>not x\<close> for a value read from the environment: unset and empty are both false.\<close>

definition provided :: "string option \<Rightarrow> bool" where
  "provided v = (case v of None \<Rightarrow> False | Some s \<Rightarrow> s \<noteq> [])"

text \<open>
  The loop over the organisations. \<open>run_pipeline\<close> is the parameter \<open>pipeline\<close>: it
  returns the report or raises.
\<close>

fun fetch_organizations ::
  "environment \<Rightarrow> yaml_config \<Rightarrow> (Config \<Rightarrow> py_error + 'r) \<Rightarrow> string list
     \<Rightarrow> main_event list \<times> nat" where
  "fetch_organizations env yaml pipeline [] = ([], 0)"
| "fetch_organizations env yaml pipeline (org_name # names) =
     (let effective_org_name =
            (if provided (ORGANIZATION_NAME env) then the (ORGANIZATION_NAME env) else org_name);
          config = \<lparr>organization = effective_org_name,
                    include_forks = yaml_includeForks yaml,
                    include_archived = yaml_includeArchived yaml,
                    since = Some (since_iso env)\<rparr>
      in case pipeline config of
           Inl e \<Rightarrow> ([Info (FetchingOrganization org_name), RunPipeline config, Uncaught e], 1)
         | Inr result \<Rightarrow>
             (case fetch_organizations env yaml pipeline names of
                (events, status) \<Rightarrow>
                  ([Info (FetchingOrganization org_name), RunPipeline config,
                    OutputResult org_name, Info (FinishedOrganization org_name)] @ events,
                   status)))"

definition main :: "environment \<Rightarrow> (Config \<Rightarrow> py_error + 'r) \<Rightarrow> main_event list \<times> nat" where
  "main env pipeline =
     (let warnings =
            (if \<not> provided (GRAPHQL_TOKEN env) then [Warning GraphqlTokenNotProvided] else [])
            @ (if \<not> provided (PEPY_API_KEY env) then [Warning PepyApiKeyNotProvided] else [])
      in if \<not> provided (GRAPHQL_TOKEN env) \<or> \<not> provided (PEPY_API_KEY env)
         then (warnings @ [Warning MissingSecretsSkippingFetch], 0)
         else
           let started = warnings @
                 [Info StartingFetcher, CreateClient (the (GRAPHQL_TOKEN env)), LoadConfig]
           in case load_config (config_yml env) of
                None \<Rightarrow> (started @ [Uncaught AttributeError], 1)
              | Some yaml \<Rightarrow>
                  (let config_organization_names = yaml_organization yaml
                   in if \<not> provided (ORGANIZATION_NAME env)
                         \<and> (config_organization_names = Absent
                              \<or> config_organization_names = Name []
                              \<or> config_organization_names = Names [])
                      then (started @ [Error OrganizationRequired], 1)
                      else
                        (case fetch_organizations env yaml pipeline
                                (case config_organization_names of
                                   Absent \<Rightarrow> [] | Name n \<Rightarrow> [n] | Names ns \<Rightarrow> ns) of
                           (events, status) \<Rightarrow> (started @ events, status))))"

text \<open>Readings of a run: the pipelines run (the network activity) and the reports written.\<close>

fun pipelines_run :: "main_event list \<Rightarrow> Config list" where
  "pipelines_run [] = []"
| "pipelines_run (RunPipeline config # es) = config # pipelines_run es"
| "pipelines_run (e # es) = pipelines_run es"

fun reports_written :: "main_event list \<Rightarrow> string list" where
  "reports_written [] = []"
| "reports_written (OutputResult org_name # es) = org_name # reports_written es"
| "reports_written (e # es) = reports_written es"

definition sample_environment :: environment where
  "sample_environment =
     \<lparr>GRAPHQL_TOKEN = Some ''ghp_token'', PEPY_API_KEY = Some ''pepy_key'',
      ORGANIZATION_NAME = None,
      config_yml = Document \<lparr>yaml_organization = Name ''brainglobe'',
                             yaml_includeForks = False, yaml_includeArchived = False\<rparr>,
      since_iso = ''2025-01-01T00:00:00''\<rparr>"

definition sample_pipeline :: "Config \<Rightarrow> py_error + Result" where
  "sample_pipeline config = Inr default_result"
section \<open>Pagination: every page of the chain, in order\<close>

lemma paginate_loop_stop:
  "\<not> truthy h \<Longrightarrow> paginate_loop gql query vars path s c h = Some ([], StopIteration, s)"
  by (subst paginate_loop.simps) simp

lemma paginate_loop_page:
  assumes "truthy h"
    and "gql s query (AList.update ''cursor'' c vars) = (Data page, s')"
    and "navigate page path = Inr data"
    and "page_info data = Inr (h', c')"
  shows "paginate_loop gql query vars path s c h =
         map_option (emit [Request (AList.update ''cursor'' c vars), Yield page])
           (paginate_loop gql query vars path s' c' h')"
  using assms by (subst paginate_loop.simps) (simp add: map_option_case split: option.splits)

lemma paginate_loop_rate_limit:
  assumes "truthy h"
    and "gql s query (AList.update ''cursor'' c vars) = (RateLimitExceededException, s')"
  shows "paginate_loop gql query vars path s c h =
         map_option (emit [Request (AList.update ''cursor'' c vars), Sleep RATE_LIMIT_SLEEP_SECONDS])
           (paginate_loop gql query vars path s' c h)"
  using assms by (subst paginate_loop.simps) (simp add: map_option_case split: option.splits)

lemma page_chain_Cons:
  assumes "page_chain stub query vars path c (page # pages)"
  shows "\<exists>conn h. stub query (AList.update ''cursor'' c vars) = page
           \<and> navigate page path = Inr (JObj conn)
           \<and> page_info (JObj conn) = Inr (h, end_cursor path page)
           \<and> announces_next path page = truthy h
           \<and> (if pages = [] then \<not> truthy h
               else h = JBool True \<and> page_chain stub query vars path (end_cursor path page) pages)"
proof -
  from assms have stub: "stub query (AList.update ''cursor'' c vars) = page" by simp
  from assms obtain conn where nav: "navigate page path = Inr (JObj conn)"
    by (auto split: sum.splits json.splits)
  show ?thesis
  proof (cases "announces_next path page")
    case True
    with assms nav have
      "page_info (JObj conn) = Inr (JBool True, end_cursor path page)"
      "pages \<noteq> []" "page_chain stub query vars path (end_cursor path page) pages"
      by (auto simp: announces_next_def end_cursor_def page_info_def
               split: option.splits json.splits bool.splits)
    with stub nav True show ?thesis by auto
  next
    case False
    with assms nav obtain h' where
      "page_info (JObj conn) = Inr (h', end_cursor path page)" "\<not> truthy h'" "pages = []"
      by (auto simp: announces_next_def end_cursor_def page_info_def
               split: option.splits json.splits bool.splits)
    with stub nav False show ?thesis by auto
  qed
qed

lemma paginate_chain:
  assumes gql: "\<And>q v. gql s q v = (Data (stub q v), s)"
  shows "page_chain stub query vars path c pages \<Longrightarrow>
   paginate_loop gql query vars path s c (JBool True) =
     Some (chain_trace vars path c pages, StopIteration, s)"
proof (induction pages arbitrary: c)
  case Nil
  then show ?case by simp
next
  case (Cons page pages)
  let ?v = "AList.update ''cursor'' c vars"
  from page_chain_Cons[OF Cons.prems] obtain conn h where
    stub: "stub query ?v = page"
    and nav: "navigate page path = Inr (JObj conn)"
    and pi: "page_info (JObj conn) = Inr (h, end_cursor path page)"
    and r: "if pages = [] then \<not> truthy h
       else h = JBool True \<and> page_chain stub query vars path (end_cursor path page) pages"
    by blast
  from gql[of query ?v] stub have answer: "gql s query ?v = (Data page, s)" by simp
  have t: "truthy (JBool True)" by simp
  have step: "paginate_loop gql query vars path s c (JBool True) =
        map_option (emit [Request ?v, Yield page])
          (paginate_loop gql query vars path s (end_cursor path page) h)"
    by (rule paginate_loop_page, fact t, fact answer, fact nav, fact pi)
  show ?case
  proof (cases "pages = []")
    case True
    with r step show ?thesis by (simp add: paginate_loop_stop emit_def)
  next
    case False
    with r have h: "h = JBool True"
      and ch: "page_chain stub query vars path (end_cursor path page) pages" by simp_all
    from Cons.IH[OF ch] step h show ?thesis by (simp add: emit_def)
  qed
qed

lemma yielded_chain_trace: "yielded (chain_trace vars path c pages) = pages"
  by (induction pages arbitrary: c) simp_all

lemma slept_chain_trace: "slept (chain_trace vars path c pages) = []"
  by (induction pages arbitrary: c) simp_all

lemma requested_chain_trace:
  "pages \<noteq> [] \<Longrightarrow>
   requested (chain_trace vars path c pages) =
     map (\<lambda>c. AList.update ''cursor'' c vars) (c # map (end_cursor path) (butlast pages))"
proof (induction pages arbitrary: c)
  case Nil
  then show ?case by simp
next
  case (Cons page pages)
  then show ?case by (cases pages) simp_all
qed

lemma page_chain_announces:
  "page_chain stub query vars path c pages \<Longrightarrow>
   map (announces_next path) pages = replicate (length pages - 1) True @ [False]"
proof (induction pages arbitrary: c)
  case Nil
  then show ?case by simp
next
  case (Cons page pages)
  from page_chain_Cons[OF Cons.prems] obtain h where
    a: "announces_next path page = truthy h"
    and r: "if pages = [] then \<not> truthy h
       else h = JBool True \<and> page_chain stub query vars path (end_cursor path page) pages"
    by blast
  show ?case
  proof (cases "pages = []")
    case True
    with a r show ?thesis by simp
  next
    case False
    with a r have an: "announces_next path page"
      and ch: "page_chain stub query vars path (end_cursor path page) pages" by simp_all
    from Cons.IH[OF ch] an False show ?thesis
      by (cases pages) (simp_all add: replicate_app_Cons_same)
  qed
qed

text \<open>
  C1. For a provider stub that returns a finite chain of N pages, the client starts with
  the cursor \<open>None\<close>, returns after yielding exactly the N pages in the chain's order,
  sends with each request the \<open>endCursor\<close> of the page before, never sleeps, and the page
  it stops after is the first one that does not announce a next page (\<open>hasNextPage\<close>
  false or the pagination metadata absent).
\<close>

theorem graphql_paginate_yields_chain:
  assumes "page_chain stub query vars path JNull pages"
  shows "\<exists>tr. graphql_paginate (stub_graphql stub) () query vars path = Some (tr, StopIteration, ())
           \<and> yielded tr = pages
           \<and> requested tr =
               map (\<lambda>c. AList.update ''cursor'' c vars) (JNull # map (end_cursor path) (butlast pages))
           \<and> slept tr = []
           \<and> map (announces_next path) pages = replicate (length pages - 1) True @ [False]"
proof -
  from assms have ne: "pages \<noteq> []" by (cases pages) simp_all
  have "graphql_paginate (stub_graphql stub) () query vars path =
        Some (chain_trace vars path JNull pages, StopIteration, ())"
    unfolding graphql_paginate_def
    by (rule paginate_chain[OF _ assms]) (simp add: stub_graphql_def)
  with ne page_chain_announces[OF assms] show ?thesis
    by (simp add: yielded_chain_trace slept_chain_trace requested_chain_trace)
qed
theorem graphql_paginate_yields_chain_witness:
  "page_chain sample_stub ''q'' sample_vars repositories_path JNull [sample_page1, sample_page2]
   \<and> (\<exists>tr. graphql_paginate (stub_graphql sample_stub) () ''q'' sample_vars repositories_path
              = Some (tr, StopIteration, ())
         \<and> yielded tr = [sample_page1, sample_page2]
         \<and> requested tr =
             [[(''organization'', JStr ''org''), (''cursor'', JNull)],
              [(''organization'', JStr ''org''), (''cursor'', JStr ''c1'')]]
         \<and> slept tr = [])"
proof -
  have h: "page_chain sample_stub ''q'' sample_vars repositories_path JNull
             [sample_page1, sample_page2]"
    by (simp add: sample_stub_def sample_vars_def repositories_path_def sample_page1_def
          sample_page2_def repositories_page_def)
  have c: "end_cursor repositories_path sample_page1 = JStr ''c1''"
    by (simp add: end_cursor_def repositories_path_def sample_page1_def repositories_page_def
          page_info_def)
  have v: "AList.update ''cursor'' x sample_vars = [(''organization'', JStr ''org''), (''cursor'', x)]"
    for x by (simp add: sample_vars_def)
  from graphql_paginate_yields_chain[OF h]
  have "\<exists>tr. graphql_paginate (stub_graphql sample_stub) () ''q'' sample_vars repositories_path
              = Some (tr, StopIteration, ())
         \<and> yielded tr = [sample_page1, sample_page2]
         \<and> requested tr =
             [[(''organization'', JStr ''org''), (''cursor'', JNull)],
              [(''organization'', JStr ''org''), (''cursor'', JStr ''c1'')]]
         \<and> slept tr = []"
    by (auto simp add: c v)
  with h show ?thesis by (rule conjI)
qed
section \<open>Rate-limit backoff: the same pages, with retries in between\<close>

lemma paginate_loop_first_request:
  assumes "truthy h" and "paginate_loop gql query vars path s c h = Some (tr, out, s')"
  shows "\<exists>tl. tr = Request (AList.update ''cursor'' c vars) # tl"
  using assms
  by (subst (asm) paginate_loop.simps)
     (auto simp: emit_def Let_def bind_eq_Some_conv
           split: prod.splits response.splits sum.splits)

lemma paginate_loop_no_signal:
  assumes "paginate_loop (flaky_graphql stub) query vars path [] c h = Some r"
  shows "snd (snd r) = [] \<and> slept (fst r) = []"
proof -
  have "flaky_graphql stub = flaky_graphql stub \<longrightarrow> ([]::bool list) = [] \<longrightarrow>
        snd (snd r) = [] \<and> slept (fst r) = []"
  proof (rule paginate_loop.raw_induct[where P = "\<lambda>g q v p s c h r.
           g = flaky_graphql stub \<longrightarrow> s = [] \<longrightarrow> snd (snd r) = [] \<and> slept (fst r) = []",
           OF _ assms], goal_cases)
    case (1 loop g q v p s c h r)
    show ?case
    proof (intro impI)
      assume g: "g = flaky_graphql stub" and s: "s = []"
      from 1(2) g s show "snd (snd r) = [] \<and> slept (fst r) = []"
        by (auto simp: emit_def Let_def flaky_graphql_def bind_eq_Some_conv
              split: if_splits prod.splits response.splits sum.splits
              dest!: 1(1))
    qed
  qed
  then show ?thesis by simp
qed

lemma retriedD:
  "retried e es \<Longrightarrow>
   \<exists>v es'. e = Request v \<and> es = Sleep RATE_LIMIT_SLEEP_SECONDS # Request v # es'"
  by (induction e es rule: retried.induct) simp_all

lemma slept_Cons_Nil: "slept (e # es) = [] \<Longrightarrow> slept es = []"
  by (cases e) simp_all

lemma yielded_Cons_cong: "yielded es' = yielded es \<Longrightarrow> yielded (e # es') = yielded (e # es)"
  by (cases e) simp_all

lemma strip_retries_no_sleep: "slept tr = [] \<Longrightarrow> strip_retries tr = tr"
  by (induction tr rule: strip_retries.induct) (auto dest: retriedD slept_Cons_Nil)

lemma yielded_strip_retries: "yielded (strip_retries tr) = yielded tr"
  by (induction tr rule: strip_retries.induct) (auto dest!: retriedD intro: yielded_Cons_cong)

lemma flaky_run_strip:
  "map_option (\<lambda>r. (strip_retries (fst r), fst (snd r)))
     (paginate_loop (flaky_graphql stub) query vars path script c h) =
   map_option (\<lambda>r. (fst r, fst (snd r)))
     (paginate_loop (flaky_graphql stub) query vars path [] c h)"
proof (induction script arbitrary: c h)
  case Nil
  show ?case
  proof (cases "paginate_loop (flaky_graphql stub) query vars path [] c h")
    case None
    then show ?thesis by simp
  next
    case (Some r)
    from paginate_loop_no_signal[OF Some] Some show ?thesis
      by (simp add: strip_retries_no_sleep)
  qed
next
  case (Cons limited rest)
  let ?v = "AList.update ''cursor'' c vars"
  show ?case
  proof (cases "truthy h")
    case False
    then show ?thesis by (simp add: paginate_loop_stop)
  next
    case True
    note h = this
    show ?thesis
    proof (cases limited)
      case True
      have step: "paginate_loop (flaky_graphql stub) query vars path (limited # rest) c h =
            map_option (emit [Request ?v, Sleep RATE_LIMIT_SLEEP_SECONDS])
              (paginate_loop (flaky_graphql stub) query vars path rest c h)"
        by (rule paginate_loop_rate_limit, fact h) (simp add: flaky_graphql_def True)
      show ?thesis
      proof (cases "paginate_loop (flaky_graphql stub) query vars path rest c h")
        case None
        with Cons.IH[of c h] step show ?thesis by simp
      next
        case (Some r)
        obtain tr out s' where r: "r = (tr, out, s')" by (cases r) auto
        from paginate_loop_first_request[OF h Some[unfolded r]] obtain tl
          where tr: "tr = Request ?v # tl" by blast
        from Cons.IH[of c h] step Some r tr show ?thesis
          by (auto simp: emit_def)
      qed
    next
      case False
      show ?thesis
      proof (cases "stub query ?v")
        case (Inl e)
        with h False show ?thesis
          by (subst (1 2) paginate_loop.simps) (simp add: flaky_graphql_def)
      next
        case (Inr page)
        have g1: "flaky_graphql stub (limited # rest) query ?v = (Data page, rest)"
          by (simp add: flaky_graphql_def False Inr)
        have g2: "flaky_graphql stub [] query ?v = (Data page, [])"
          by (simp add: flaky_graphql_def Inr)
        show ?thesis
        proof (cases "navigate page path")
          case (Inl e)
          with h g1 g2 show ?thesis
            by (subst (1 2) paginate_loop.simps) simp
        next
          case nav: (Inr data)
          show ?thesis
          proof (cases "page_info data")
            case (Inl e)
            with h g1 g2 nav show ?thesis
              by (subst (1 2) paginate_loop.simps) simp
          next
            case (Inr hc)
            obtain h' c' where pi: "page_info data = Inr (h', c')"
              using Inr by (cases hc) auto
            have step1: "paginate_loop (flaky_graphql stub) query vars path (limited # rest) c h =
                  map_option (emit [Request ?v, Yield page])
                    (paginate_loop (flaky_graphql stub) query vars path rest c' h')"
              by (rule paginate_loop_page, fact h, fact g1, fact nav, fact pi)
            have step2: "paginate_loop (flaky_graphql stub) query vars path [] c h =
                  map_option (emit [Request ?v, Yield page])
                    (paginate_loop (flaky_graphql stub) query vars path [] c' h')"
              by (rule paginate_loop_page, fact h, fact g2, fact nav, fact pi)
            from Cons.IH[of c' h'] show ?thesis
              unfolding step1 step2
              by (cases "paginate_loop (flaky_graphql stub) query vars path rest c' h'";
                  cases "paginate_loop (flaky_graphql stub) query vars path [] c' h'")
                 (auto simp: emit_def)
          qed
        qed
      qed
    qed
  qed
qed

lemma flaky_run_sleeps:
  "paginate_loop (flaky_graphql stub) query vars path script c h = Some r \<Longrightarrow>
   length (snd (snd r)) \<le> length script \<and>
   slept (fst r) = replicate (signals script (snd (snd r))) RATE_LIMIT_SLEEP_SECONDS"
proof (induction script arbitrary: c h r)
  case Nil
  from paginate_loop_no_signal[OF Nil] show ?case by (simp add: signals_def)
next
  case (Cons limited rest)
  let ?v = "AList.update ''cursor'' c vars"
  show ?case
  proof (cases "truthy h")
    case False
    with Cons.prems show ?thesis by (auto simp: paginate_loop_stop signals_def)
  next
    case True
    note h = this
    show ?thesis
    proof (cases limited)
      case True
      have step: "paginate_loop (flaky_graphql stub) query vars path (limited # rest) c h =
            map_option (emit [Request ?v, Sleep RATE_LIMIT_SLEEP_SECONDS])
              (paginate_loop (flaky_graphql stub) query vars path rest c h)"
        by (rule paginate_loop_rate_limit, fact h) (simp add: flaky_graphql_def True)
      with Cons.prems obtain r' where
        r': "paginate_loop (flaky_graphql stub) query vars path rest c h = Some r'"
        and r: "r = emit [Request ?v, Sleep RATE_LIMIT_SLEEP_SECONDS] r'" by auto
      from Cons.IH[OF r'] r True show ?thesis
        by (auto simp: emit_def signals_def Suc_diff_le)
    next
      case False
      show ?thesis
      proof (cases "stub query ?v")
        case (Inl e)
        with h False Cons.prems show ?thesis
          by (subst (asm) paginate_loop.simps) (auto simp: flaky_graphql_def signals_def)
      next
        case (Inr page)
        have g1: "flaky_graphql stub (limited # rest) query ?v = (Data page, rest)"
          by (simp add: flaky_graphql_def False Inr)
        show ?thesis
        proof (cases "navigate page path")
          case (Inl e)
          with h g1 False Cons.prems show ?thesis
            by (subst (asm) paginate_loop.simps) (auto simp: signals_def)
        next
          case nav: (Inr data)
          show ?thesis
          proof (cases "page_info data")
            case (Inl e)
            with h g1 nav False Cons.prems show ?thesis
              by (subst (asm) paginate_loop.simps) (auto simp: signals_def)
          next
            case (Inr hc)
            obtain h' c' where pi: "page_info data = Inr (h', c')"
              using Inr by (cases hc) auto
            have step1: "paginate_loop (flaky_graphql stub) query vars path (limited # rest) c h =
                  map_option (emit [Request ?v, Yield page])
                    (paginate_loop (flaky_graphql stub) query vars path rest c' h')"
              by (rule paginate_loop_page, fact h, fact g1, fact nav, fact pi)
            with Cons.prems obtain r' where
              r': "paginate_loop (flaky_graphql stub) query vars path rest c' h' = Some r'"
              and r: "r = emit [Request ?v, Yield page] r'" by auto
            from Cons.IH[OF r'] r False show ?thesis
              by (auto simp: emit_def signals_def Suc_diff_le)
          qed
        qed
      qed
    qed
  qed
qed

text \<open>
  C2. Whatever requests the provider answers with a rate-limit signal before it eventually
  answers them, the client's run is the run without any signal with retries put in: taking
  out every request that is followed by a sleep of the cooldown and the same request
  again leaves the requests and yielded pages of the run without signals, with the same
  end. So the pages yielded are the same, in the same order, none skipped, none twice and
  none of them a rate-limit result; and the client sleeps the cooldown
  \<open>RATE_LIMIT_SLEEP_SECONDS\<close> once for each signal it received. In particular, over
  a stub with a finite chain of pages the rate-limited run returns, having yielded
  exactly the pages of the chain.
\<close>

theorem rate_limit_retry_same_pages:
  "map_option (\<lambda>r. (strip_retries (fst r), fst (snd r)))
     (graphql_paginate (flaky_graphql stub) script query vars path) =
   map_option (\<lambda>r. (fst r, fst (snd r)))
     (graphql_paginate (flaky_graphql stub) [] query vars path)
   \<and> map_option (\<lambda>r. (yielded (fst r), fst (snd r)))
       (graphql_paginate (flaky_graphql stub) script query vars path) =
     map_option (\<lambda>r. (yielded (fst r), fst (snd r)))
       (graphql_paginate (flaky_graphql stub) [] query vars path)
   \<and> (\<forall>r. graphql_paginate (flaky_graphql stub) script query vars path = Some r \<longrightarrow>
          slept (fst r) = replicate (signals script (snd (snd r))) RATE_LIMIT_SLEEP_SECONDS)
   \<and> (page_chain chain query vars path JNull pages \<and> (\<forall>q v. stub q v = Inr (chain q v)) \<longrightarrow>
        (\<exists>tr rest. graphql_paginate (flaky_graphql stub) script query vars path
                      = Some (tr, StopIteration, rest)
                  \<and> yielded tr = pages))"
proof -
  let ?A = "graphql_paginate (flaky_graphql stub) script query vars path"
  let ?B = "graphql_paginate (flaky_graphql stub) [] query vars path"
  have strip: "map_option (\<lambda>r. (strip_retries (fst r), fst (snd r))) ?A =
               map_option (\<lambda>r. (fst r, fst (snd r))) ?B"
    unfolding graphql_paginate_def by (rule flaky_run_strip)
  have "map_option (\<lambda>p. (yielded (fst p), snd p))
          (map_option (\<lambda>r. (strip_retries (fst r), fst (snd r))) ?A) =
        map_option (\<lambda>p. (yielded (fst p), snd p))
          (map_option (\<lambda>r. (fst r, fst (snd r))) ?B)"
    by (simp only: strip)
  then have pages: "map_option (\<lambda>r. (yielded (fst r), fst (snd r))) ?A =
                    map_option (\<lambda>r. (yielded (fst r), fst (snd r))) ?B"
    by (simp add: option.map_comp comp_def yielded_strip_retries)
  have sleeps: "\<forall>r. ?A = Some r \<longrightarrow>
          slept (fst r) = replicate (signals script (snd (snd r))) RATE_LIMIT_SLEEP_SECONDS"
    unfolding graphql_paginate_def using flaky_run_sleeps by blast
  have chain: "page_chain chain query vars path JNull pages \<and> (\<forall>q v. stub q v = Inr (chain q v)) \<longrightarrow>
        (\<exists>tr rest. ?A = Some (tr, StopIteration, rest) \<and> yielded tr = pages)"
  proof
    assume a: "page_chain chain query vars path JNull pages \<and> (\<forall>q v. stub q v = Inr (chain q v))"
    then have answers: "\<And>q v. flaky_graphql stub [] q v = (Data (chain q v), [])"
      by (simp add: flaky_graphql_def)
    from a have c: "page_chain chain query vars path JNull pages" by simp
    have "?B = Some (chain_trace vars path JNull pages, StopIteration, [])"
      unfolding graphql_paginate_def
      by (rule paginate_chain[where gql = "flaky_graphql stub" and s = "[]" and stub = chain])
         (fact answers, fact c)
    with pages have "map_option (\<lambda>r. (yielded (fst r), fst (snd r))) ?A =
        Some (pages, StopIteration)"
      by (simp add: yielded_chain_trace)
    then show "\<exists>tr rest. ?A = Some (tr, StopIteration, rest) \<and> yielded tr = pages"
      by (cases ?A) auto
  qed
  show ?thesis by (intro conjI, fact strip, fact pages, fact sleeps, fact chain)
qed

theorem rate_limit_retry_same_pages_witness:
  "\<exists>tr tr'.
     graphql_paginate (flaky_graphql sample_flaky) [True, False, True, True] ''q''
       sample_vars repositories_path = Some (tr, StopIteration, [])
     \<and> graphql_paginate (flaky_graphql sample_flaky) [] ''q''
         sample_vars repositories_path = Some (tr', StopIteration, [])
     \<and> strip_retries tr = tr'
     \<and> yielded tr = [sample_page1, sample_page2]
     \<and> yielded tr' = [sample_page1, sample_page2]
     \<and> slept tr = [60, 60, 60]
     \<and> page_chain sample_stub ''q'' sample_vars repositories_path JNull
           [sample_page1, sample_page2]
     \<and> (\<forall>q v. sample_flaky q v = Inr (sample_stub q v))"
proof -
  have chain: "page_chain sample_stub ''q'' sample_vars repositories_path JNull
             [sample_page1, sample_page2]"
    by (simp add: sample_stub_def sample_vars_def repositories_path_def sample_page1_def
          sample_page2_def repositories_page_def)
  have answers: "\<forall>q v. sample_flaky q v = Inr (sample_stub q v)"
    by (simp add: sample_flaky_def)
  let ?v0 = "[(''organization'', JStr ''org''), (''cursor'', JNull)]"
  let ?v1 = "[(''organization'', JStr ''org''), (''cursor'', JStr ''c1'')]"
  let ?tr = "[Request ?v0, Sleep 60, Request ?v0, Yield sample_page1,
              Request ?v1, Sleep 60, Request ?v1, Sleep 60, Request ?v1, Yield sample_page2]"
  let ?tr' = "[Request ?v0, Yield sample_page1, Request ?v1, Yield sample_page2]"
  have limited: "graphql_paginate (flaky_graphql sample_flaky) [True, False, True, True] ''q''
           sample_vars repositories_path = Some (?tr, StopIteration, [])"
    by (simp add: graphql_paginate_def paginate_loop.simps flaky_graphql_def sample_flaky_def
          sample_stub_def sample_vars_def repositories_path_def sample_page1_def
          sample_page2_def repositories_page_def page_info_def emit_def
          RATE_LIMIT_SLEEP_SECONDS_def)
  have plain: "graphql_paginate (flaky_graphql sample_flaky) [] ''q''
           sample_vars repositories_path = Some (?tr', StopIteration, [])"
    by (simp add: graphql_paginate_def paginate_loop.simps flaky_graphql_def sample_flaky_def
          sample_stub_def sample_vars_def repositories_path_def sample_page1_def
          sample_page2_def repositories_page_def page_info_def emit_def)
  have n: "signals [True, False, True, True] [] = 3"
    by (simp add: signals_def)
  from rate_limit_retry_same_pages[of sample_flaky "[True, False, True, True]" "''q''"
      sample_vars repositories_path]
  have "strip_retries ?tr = ?tr'" and "yielded ?tr = yielded ?tr'"
    and "slept ?tr = replicate 3 RATE_LIMIT_SLEEP_SECONDS"
    unfolding limited plain by (simp_all add: n)
  then have "strip_retries ?tr = ?tr'" and "yielded ?tr = [sample_page1, sample_page2]"
    and "yielded ?tr' = [sample_page1, sample_page2]" and "slept ?tr = [60, 60, 60]"
    by (simp_all add: RATE_LIMIT_SLEEP_SECONDS_def numeral_3_eq_3)
  with limited plain chain answers show ?thesis by blast
qed
section \<open>The filtering policy\<close>

text \<open>
  C7. A repository node with a name and the two flags (a flag the node does not have
  counts as false) is left out by the discovery loop
  exactly when it is archived and \<open>include_archived\<close> is false, or it is a fork and
  \<open>include_forks\<close> is false, or its name is in the exclusion list, or its name starts
  with one of the excluded prefixes. So an archived repository is left out when
  \<open>include_archived\<close> is false, a fork is kept when \<open>include_forks\<close> is true and no
  other rule applies, and a name equal to an excluded prefix is left out whatever the
  flags and the configuration.
\<close>

theorem filtering_policy:
  assumes "getitem repo ''name'' = Inr (JStr name)"
    and "dict_get repo ''isArchived'' (JBool False) = Inr (JBool archived)"
    and "dict_get repo ''isFork'' (JBool False) = Inr (JBool fork)"
  shows "filter_nodes excluded config (repo # nodes) all_repos =
         filter_nodes excluded config nodes
           (if (archived \<and> \<not> include_archived config) \<or> (fork \<and> \<not> include_forks config)
               \<or> name \<in> set excluded \<or> (\<exists>p \<in> set EXCLUDED_REPO_PREFIXES. prefix p name)
            then all_repos else all_repos @ [repo])
         \<and> (archived \<and> \<not> include_archived config \<longrightarrow>
              filter_nodes excluded config [repo] all_repos = Inr all_repos)
         \<and> (fork \<and> include_forks config \<and> \<not> (archived \<and> \<not> include_archived config)
              \<and> \<not> should_exclude_repo excluded name config \<longrightarrow>
              filter_nodes excluded config [repo] all_repos = Inr (all_repos @ [repo]))
         \<and> (name \<in> set EXCLUDED_REPO_PREFIXES \<longrightarrow>
              filter_nodes excluded config [repo] all_repos = Inr all_repos)
         \<and> should_exclude_repo excluded name config =
             (name \<in> set excluded \<or> (\<exists>p \<in> set EXCLUDED_REPO_PREFIXES. prefix p name))"
proof -
  from assms(1) have "repo \<noteq> JNull" by auto
  with assms show ?thesis
    by (auto simp: should_exclude_repo_def list_ex_iff)
qed

theorem filtering_policy_witness:
  "filter_nodes [''secret''] default_config
     [repo_node ''a'' False False, repo_node ''old'' True False, repo_node ''slides-'' False False,
      repo_node ''secret'' False False, repo_node ''forked'' False True,
      repo_node ''course-x'' False False] [] = Inr [repo_node ''a'' False False]
   \<and> filter_nodes [''secret''] (default_config\<lparr>include_forks := True\<rparr>)
       [repo_node ''forked'' False True] [] = Inr [repo_node ''forked'' False True]
   \<and> query_repo_names [''secret''] default_config
       [repositories_page [repo_node ''a'' False False, JNull, repo_node ''slides-'' False False]
          True (JStr ''c1''),
        repositories_page [repo_node ''old'' True False, repo_node ''b'' False False] False JNull]
       = Inr [repo_node ''a'' False False, repo_node ''b'' False False]"
proof -
  have n: "getitem (repo_node n a f) ''name'' = Inr (JStr n)"
    "dict_get (repo_node n a f) ''isArchived'' (JBool False) = Inr (JBool a)"
    "dict_get (repo_node n a f) ''isFork'' (JBool False) = Inr (JBool f)" for n a f
    by (simp_all add: repo_node_def)
  have step: "filter_nodes excluded config (repo_node n a f # nodes) all_repos =
         filter_nodes excluded config nodes
           (if (a \<and> \<not> include_archived config) \<or> (f \<and> \<not> include_forks config)
               \<or> n \<in> set excluded \<or> (\<exists>p \<in> set EXCLUDED_REPO_PREFIXES. prefix p n)
            then all_repos else all_repos @ [repo_node n a f])"
    for excluded config n a f nodes all_repos
    using filtering_policy[OF n(1) n(2) n(3), where excluded = excluded and config = config
        and nodes = nodes and all_repos = all_repos] ..
  have null: "filter_nodes excluded config (JNull # nodes) all_repos =
      filter_nodes excluded config nodes all_repos" for excluded config nodes all_repos
    by simp
  show ?thesis
    by (simp add: step null default_config_def EXCLUDED_REPO_PREFIXES_def query_repo_names_def
          repositories_page_def del: filter_nodes.simps(2))
qed

section \<open>The exclusion decision does not read the configuration\<close>

text \<open>
  C10. For every repository name and any two configurations, \<open>should_exclude_repo\<close>
  gives the same answer: it depends on the name, on the cached exclusion list and on the
  constant prefixes only.
\<close>

theorem should_exclude_repo_ignores_config:
  "should_exclude_repo excluded repo_name c1 = should_exclude_repo excluded repo_name c2"
  by (simp add: should_exclude_repo_def)

theorem should_exclude_repo_ignores_config_witness:
  "should_exclude_repo (load_excluded_repos (Some [''secret''])) ''slides-2024'' default_config
   = should_exclude_repo (load_excluded_repos (Some [''secret''])) ''slides-2024''
       (default_config\<lparr>organization := ''other'', include_forks := True, include_archived := True\<rparr>)
   \<and> should_exclude_repo (load_excluded_repos (Some [''secret''])) ''slides-2024'' default_config"
  using should_exclude_repo_ignores_config[of "load_excluded_repos (Some [''secret''])"
      "''slides-2024''" default_config
      "default_config\<lparr>organization := ''other'', include_forks := True, include_archived := True\<rparr>"]
  by (simp add: should_exclude_repo_def EXCLUDED_REPO_PREFIXES_def)
section \<open>The contributor poller\<close>

lemma stats_url_inj [simp]: "stats_url org a = stats_url org b \<longleftrightarrow> a = b"
  by (simp add: stats_url_def)

lemma timed_out_dom: "dom (timed_out repos m) = dom m \<union> set repos"
  by (induction repos arbitrary: m) auto

lemma retry_pass_dom:
  "retry_pass client org repos still_pending st = (still_pending', st') \<Longrightarrow>
   dom (contributors_map st') \<union> set still_pending' =
     dom (contributors_map st) \<union> set still_pending \<union> set repos"
proof (induction repos arbitrary: still_pending st)
  case Nil
  then show ?case by auto
next
  case (Cons repo_name repos)
  obtain status data s' where
    c: "client (provider st) ''GET'' (stats_url org repo_name) = ((status, data), s')"
    by (metis prod.exhaust)
  let ?st = "st\<lparr>trace := trace st @ [Get (stats_url org repo_name)], provider := s'\<rparr>"
  consider (ready) "status = 200 \<and> has_data data"
    | (pending) "\<not> (status = 200 \<and> has_data data)" "status = 202"
    | (failed) "\<not> (status = 200 \<and> has_data data)" "status \<noteq> 202"
    by blast
  then show ?case
  proof cases
    case ready
    with Cons.prems c have "retry_pass client org repos still_pending
        (?st\<lparr>contributors_map :=
               (contributors_map ?st)(repo_name \<mapsto> int (length (the data)))\<rparr>)
        = (still_pending', st')"
      by (auto simp: Let_def)
    from Cons.IH[OF this] show ?thesis by auto
  next
    case pending
    with Cons.prems c have
      "retry_pass client org repos (still_pending @ [repo_name]) ?st = (still_pending', st')"
      by (auto simp: Let_def)
    from Cons.IH[OF this] show ?thesis by auto
  next
    case failed
    with Cons.prems c have "retry_pass client org repos still_pending
        (?st\<lparr>contributors_map := (contributors_map ?st)(repo_name \<mapsto> 0)\<rparr>)
        = (still_pending', st')"
      by (auto simp: Let_def)
    from Cons.IH[OF this] show ?thesis by auto
  qed
qed

lemma retry_loop_dom:
  "dom (contributors_map (retry_loop client org n st)) \<union>
     set (pending_repos (retry_loop client org n st)) =
   dom (contributors_map st) \<union> set (pending_repos st)"
proof (induction client org n st rule: retry_loop.induct)
  case (1 client org n st)
  show ?case
  proof (cases "pending_repos st \<noteq> [] \<and> n > 0")
    case False
    then show ?thesis by auto
  next
    case True
    let ?st1 = "st\<lparr>trace := trace st @ [Wait CONTRIBUTOR_RETRY_SLEEP_SECONDS]\<rparr>"
    obtain sp st2 where p: "retry_pass client org (pending_repos ?st1) [] ?st1 = (sp, st2)"
      by (metis prod.exhaust)
    from True p have unfold: "retry_loop client org n st =
        retry_loop client org (n - 1) (st2\<lparr>pending_repos := sp\<rparr>)"
      by (subst retry_loop.simps) (simp add: Let_def)
    from "1.IH"[OF True refl p[symmetric]] retry_pass_dom[OF p]
    show ?thesis unfolding unfold by auto
  qed
qed

lemma initial_pass_dom:
  assumes ok: "\<And>body. body \<noteq> [] \<Longrightarrow>
      \<exists>v. loads body = Inr v \<and> (truthy v \<longrightarrow> (\<exists>n. py_len v = Inr n))"
  shows "\<exists>st'. initial_pass loads client org repos st = Inr st'
           \<and> dom (contributors_map st') \<union> set (pending_repos st') =
               dom (contributors_map st) \<union> set (pending_repos st) \<union> set repos"
proof (induction repos arbitrary: st)
  case Nil
  show ?case by simp
next
  case (Cons repo_name repos)
  obtain status data s' where
    c: "client (provider st) ''GET'' (stats_url org repo_name) = ((status, data), s')"
    by (metis prod.exhaust)
  let ?st = "st\<lparr>trace := trace st @ [Get (stats_url org repo_name)], provider := s'\<rparr>"
  obtain v where v: "(if has_data data then loads (the data) else Inr JNull) = Inr v"
    and len: "truthy v \<longrightarrow> (\<exists>n. py_len v = Inr n)"
    using ok[of "the data"] by (cases "has_data data") (auto simp: has_data_def split: option.splits)
  consider (ready) "status = 200 \<and> truthy v"
    | (pending) "\<not> (status = 200 \<and> truthy v)" "status = 202"
    | (failed) "\<not> (status = 200 \<and> truthy v)" "status \<noteq> 202"
    by blast
  then show ?case
  proof cases
    case ready
    with len obtain n where n: "py_len v = Inr n" by blast
    from ready c v n have "initial_pass loads client org (repo_name # repos) st =
        initial_pass loads client org repos
          (?st\<lparr>contributors_map := (contributors_map ?st)(repo_name \<mapsto> n)\<rparr>)"
      by (auto simp: Let_def)
    with Cons.IH[of "?st\<lparr>contributors_map := (contributors_map ?st)(repo_name \<mapsto> n)\<rparr>"]
    show ?thesis by auto
  next
    case pending
    with c v have "initial_pass loads client org (repo_name # repos) st =
        initial_pass loads client org repos
          (?st\<lparr>pending_repos := pending_repos ?st @ [repo_name]\<rparr>)"
      by (auto simp: Let_def)
    with Cons.IH[of "?st\<lparr>pending_repos := pending_repos ?st @ [repo_name]\<rparr>"]
    show ?thesis by auto
  next
    case failed
    with c v have "initial_pass loads client org (repo_name # repos) st =
        initial_pass loads client org repos
          (?st\<lparr>contributors_map := (contributors_map ?st)(repo_name \<mapsto> 0)\<rparr>)"
      by (auto simp: Let_def)
    with Cons.IH[of "?st\<lparr>contributors_map := (contributors_map ?st)(repo_name \<mapsto> 0)\<rparr>"]
    show ?thesis by auto
  qed
qed

text \<open>
  When every body that is not empty parses, and parses to a value with a length where it
  is counted, the poller returns a mapping whose keys are exactly the repositories given.
\<close>

lemma fetch_all_contributors_keys:
  assumes "\<And>body. body \<noteq> [] \<Longrightarrow>
      \<exists>v. loads body = Inr v \<and> (truthy v \<longrightarrow> (\<exists>n. py_len v = Inr n))"
  shows "\<exists>st. fetch_all_contributors loads client s org repos = Inr st
           \<and> dom (contributors_map st) = set repos"
proof -
  let ?st0 = "\<lparr>contributors_map = Map.empty, pending_repos = [], trace = [], provider = s\<rparr>"
  have "\<exists>st'. initial_pass loads client org repos ?st0 = Inr st'
           \<and> dom (contributors_map st') \<union> set (pending_repos st') =
               dom (contributors_map ?st0) \<union> set (pending_repos ?st0) \<union> set repos"
    by (rule initial_pass_dom) (rule assms)
  then obtain st1 where
    i: "initial_pass loads client org repos ?st0 = Inr st1"
    and d: "dom (contributors_map st1) \<union> set (pending_repos st1) = set repos"
    by auto
  from i d retry_loop_dom[of client org MAX_CONTRIBUTOR_RETRIES st1] show ?thesis
    by (simp add: fetch_all_contributors_def Let_def timed_out_dom)
qed

text \<open>
  C3. The poller is to return a mapping with every repository resolved, a status other
  than 200 and 202 giving the default 0. The first loop parses every body that is not
  empty before it looks at the status, so one error response whose body is not JSON makes
  the whole call raise: for the single repository \<open>r\<close> answered with 502 and a body
  that is a web page, no mapping is returned. The same answer in a retry pass, and a
  request that fails with \<open>GithubException\<close>, do give the default 0.
\<close>

theorem fetch_all_contributors_raises_on_error_body:
  "fetch_all_contributors sample_loads (counting_rest bad_gateway) no_requests ''org'' [''r'']
     = Inl JSONDecodeError
   \<and> returned (fetch_all_contributors sample_loads (counting_rest bad_gateway) no_requests
        ''org'' [''r'']) = None
   \<and> map_option (\<lambda>m. m ''r'')
       (returned (fetch_all_contributors sample_loads (counting_rest bad_gateway_on_retry)
          no_requests ''org'' [''r''])) = Some (Some 0)
   \<and> map_option (\<lambda>m. m ''r'')
       (returned (fetch_all_contributors sample_loads (rest_request failing_requester) ()
          ''org'' [''r''])) = Some (Some 0)"
  by (simp add: fetch_all_contributors_def counting_rest_def bad_gateway_def sample_loads_def
        bad_gateway_on_retry_def rest_request_def failing_requester_def no_requests_def
        has_data_def returned_def Let_def MAX_CONTRIBUTOR_RETRIES_def)

text \<open>
  C4. A retry pass is to resolve a unit as the first pass would. For the repository \<open>r\<close>
  that is pending at first and then answered with 200 and the body \<open>[{},{}]\<close> (two
  contributors), the retry pass stores 7, the number of characters of the body; the same
  response on the first pass stores 2, the number of entries of the parsed body.
\<close>

theorem retry_pass_counts_raw_body:
  "map_option (\<lambda>m. m ''r'')
     (returned (fetch_all_contributors sample_loads (counting_rest (ready_on_retry ''[{},{}]''))
        no_requests ''org'' [''r''])) = Some (Some 7)
   \<and> map_option (\<lambda>m. m ''r'')
       (returned (fetch_all_contributors sample_loads (counting_rest (ready_at_once ''[{},{}]''))
          no_requests ''org'' [''r''])) = Some (Some 2)"
  by (simp add: fetch_all_contributors_def counting_rest_def no_requests_def ready_on_retry_def
        ready_at_once_def sample_loads_def has_data_def returned_def Let_def
        MAX_CONTRIBUTOR_RETRIES_def)

text \<open>
  C5, as stated: for the three units, the total wait of the batch is twice the retry
  interval. It is not: the unit that stays pending keeps the loop going through the whole
  retry budget, 20 sleeps of 10 seconds.
\<close>

theorem poller_total_wait_counterexample:
  "sum_list (waits_of (fetch_all_contributors sample_loads
       (counting_rest (three_units ''org'' ''a'' ''b'' ''c'' ''[{},{}]'' ''[{}]''))
       no_requests ''org'' [''a'', ''b'', ''c''])) = 200
   \<and> (200::nat) \<noteq> 2 * CONTRIBUTOR_RETRY_SLEEP_SECONDS"
  by (simp add: waits_of_def fetch_all_contributors_def counting_rest_def no_requests_def
        three_units_def
        sample_loads_def has_data_def Let_def MAX_CONTRIBUTOR_RETRIES_def
        CONTRIBUTOR_RETRY_SLEEP_SECONDS_def)

text \<open>
  C5, amended. For a batch of three units, the first ready at once, the second pending
  until its second retry, the third pending for ever, the poller returns a mapping in
  which the first has its contributor count after its single request, the second is
  resolved by its third request (in the second retry pass), and the third is set to the
  default 0 after a request in each of the \<open>MAX_CONTRIBUTOR_RETRIES\<close> retry passes. There
  is one sleep per retry pass, shared by the units still pending, and the passes go on
  through the whole budget: the total wait is \<open>MAX_CONTRIBUTOR_RETRIES\<close> times the retry
  interval.
\<close>

theorem poller_three_units:
  assumes "a \<noteq> b" and "a \<noteq> c" and "b \<noteq> c"
    and "body_a \<noteq> []" and "loads body_a = Inr (JList xs)" and "xs \<noteq> []" and "body_b \<noteq> []"
  shows "\<exists>st. fetch_all_contributors loads
           (counting_rest (three_units org a b c body_a body_b)) no_requests org [a, b, c] = Inr st
         \<and> dom (contributors_map st) = {a, b, c}
         \<and> contributors_map st a = Some (int (length xs))
         \<and> contributors_map st c = Some 0
         \<and> gets (stats_url org a) (trace st) = 1
         \<and> gets (stats_url org b) (trace st) = 3
         \<and> gets (stats_url org c) (trace st) = 1 + MAX_CONTRIBUTOR_RETRIES
         \<and> waits (trace st) = replicate MAX_CONTRIBUTOR_RETRIES CONTRIBUTOR_RETRY_SLEEP_SECONDS
         \<and> sum_list (waits (trace st)) = MAX_CONTRIBUTOR_RETRIES * CONTRIBUTOR_RETRY_SLEEP_SECONDS
         \<and> trace st =
             [Get (stats_url org a), Get (stats_url org b), Get (stats_url org c),
              Wait CONTRIBUTOR_RETRY_SLEEP_SECONDS, Get (stats_url org b), Get (stats_url org c),
              Wait CONTRIBUTOR_RETRY_SLEEP_SECONDS, Get (stats_url org b), Get (stats_url org c)]
             @ concat (replicate (MAX_CONTRIBUTOR_RETRIES - 2)
                 [Wait CONTRIBUTOR_RETRY_SLEEP_SECONDS, Get (stats_url org c)])"
  using assms
  by (auto simp add: fetch_all_contributors_def counting_rest_def no_requests_def
        three_units_def
        has_data_def Let_def MAX_CONTRIBUTOR_RETRIES_def eval_nat_numeral)

theorem poller_three_units_witness:
  "\<exists>st. fetch_all_contributors sample_loads
           (counting_rest (three_units ''org'' ''a'' ''b'' ''c'' ''[{},{}]'' ''[{}]''))
           no_requests ''org'' [''a'', ''b'', ''c''] = Inr st
         \<and> dom (contributors_map st) = {''a'', ''b'', ''c''}
         \<and> contributors_map st ''a'' = Some 2
         \<and> contributors_map st ''c'' = Some 0
         \<and> gets (stats_url ''org'' ''b'') (trace st) = 3
         \<and> gets (stats_url ''org'' ''c'') (trace st) = 21
         \<and> sum_list (waits (trace st)) = 200"
proof -
  have h: "''a'' \<noteq> ''b''" "''a'' \<noteq> ''c''" "''b'' \<noteq> ''c''" "''[{},{}]'' \<noteq> []"
    "sample_loads ''[{},{}]'' = Inr (JList [JObj [], JObj []])" "[JObj [], JObj []] \<noteq> []"
    "''[{}]'' \<noteq> []"
    by (simp_all add: sample_loads_def)
  from poller_three_units[where loads = sample_loads and org = "''org''", OF h] show ?thesis
    by (auto simp: MAX_CONTRIBUTOR_RETRIES_def CONTRIBUTOR_RETRY_SLEEP_SECONDS_def)
qed
section \<open>Enrichment steps: lookup or skip\<close>

lemma issue_skip:
  "node_name repo = Inr repo_name \<Longrightarrow> repo_name \<notin> dom (repositories result) \<Longrightarrow>
   add_issue_and_pr_data excluded config (repo # data_result) result =
   add_issue_and_pr_data excluded config data_result result"
  by (auto simp: then_do_def split: option.splits)

lemma discussion_skip:
  "node_name repo = Inr repo_name \<Longrightarrow> repo_name \<notin> dom (repositories result) \<Longrightarrow>
   add_discussion_data excluded config (repo # data_result) result =
   add_discussion_data excluded config data_result result"
  by (auto simp: then_do_def split: option.splits)

lemma pepy_skip:
  "repo_name \<notin> dom (repositories result) \<Longrightarrow>
   pepy_loop process ((repo_name, data) # projects) result = pepy_loop process projects result"
  by (auto split: option.splits)

lemma conda_total_skip:
  "remap legacy pkg_name \<notin> dom (repositories result) \<Longrightarrow>
   conda_total_loop legacy ((pkg_name, t) # rows) result = conda_total_loop legacy rows result"
  by (auto simp: Let_def split: option.splits)

lemma conda_monthly_skip:
  "remap legacy pkg_name \<notin> dom (repositories result) \<Longrightarrow>
   conda_monthly_loop legacy ((pkg_name, t) # rows) result = conda_monthly_loop legacy rows result"
  by (auto simp: Let_def split: option.splits)

lemma issue_all_absent:
  "\<forall>repo \<in> set data_result. \<exists>n. node_name repo = Inr n \<and> n \<notin> dom (repositories result) \<Longrightarrow>
   add_issue_and_pr_data excluded config data_result result = Inr result"
proof (induction data_result)
  case Nil
  show ?case by simp
next
  case (Cons repo data_result)
  then obtain n where n: "node_name repo = Inr n" "n \<notin> dom (repositories result)" by auto
  from Cons have "add_issue_and_pr_data excluded config data_result result = Inr result" by simp
  with issue_skip[OF n] show ?case by simp
qed

lemma discussion_all_absent:
  "\<forall>repo \<in> set data_result. \<exists>n. node_name repo = Inr n \<and> n \<notin> dom (repositories result) \<Longrightarrow>
   add_discussion_data excluded config data_result result = Inr result"
proof (induction data_result)
  case Nil
  show ?case by simp
next
  case (Cons repo data_result)
  then obtain n where n: "node_name repo = Inr n" "n \<notin> dom (repositories result)" by auto
  from Cons have "add_discussion_data excluded config data_result result = Inr result" by simp
  with discussion_skip[OF n] show ?case by simp
qed

lemma pepy_all_absent:
  "\<forall>p \<in> set projects. fst p \<notin> dom (repositories result) \<Longrightarrow>
   pepy_loop process projects result = Inr result"
  by (induction projects) (auto split: option.splits)

lemma conda_total_all_absent:
  "\<forall>row \<in> set rows. remap legacy (fst row) \<notin> dom (repositories result) \<Longrightarrow>
   conda_total_loop legacy rows result = result"
  by (induction rows) (auto simp: Let_def split: option.splits)

lemma conda_monthly_all_absent:
  "\<forall>row \<in> set rows. remap legacy (fst row) \<notin> dom (repositories result) \<Longrightarrow>
   conda_monthly_loop legacy rows result = result"
  by (induction rows) (auto simp: Let_def split: option.splits)

lemma dom_if_present:
  "k \<in> dom m \<Longrightarrow> dom (\<lambda>a. if a = k then Some v else m a) = dom m"
  by (auto split: if_splits)

lemma issue_dom:
  "add_issue_and_pr_data excluded config data_result result = Inr result' \<Longrightarrow>
   dom (repositories result') = dom (repositories result)"
proof (induction data_result arbitrary: result)
  case Nil
  then show ?case by simp
next
  case (Cons repo data_result)
  show ?case
  proof (cases "node_name repo")
    case (Inl e)
    with Cons.prems show ?thesis by (simp add: then_do_def)
  next
    case (Inr n)
    show ?thesis
    proof (cases "should_exclude_repo excluded n config \<or> repositories result n = None")
      case True
      with Inr Cons.prems have "add_issue_and_pr_data excluded config data_result result = Inr result'"
        by (auto simp: then_do_def split: if_splits)
      from Cons.IH[OF this] show ?thesis .
    next
      case False
      then obtain entry where rec: "repositories result n = Some entry"
        and ne: "\<not> should_exclude_repo excluded n config" by auto
      from Cons.prems Inr rec ne obtain entry' where
        "add_issue_and_pr_data excluded config data_result
           (result\<lparr>repositories := (repositories result)(n \<mapsto> entry')\<rparr>) = Inr result'"
        by (auto simp: then_do_def split: sum.splits)
      moreover from rec have "n \<in> dom (repositories result)" by auto
      ultimately show ?thesis
        using Cons.IH by (simp add: insert_absorb dom_if_present)
    qed
  qed
qed

lemma discussion_dom:
  "add_discussion_data excluded config data_result result = Inr result' \<Longrightarrow>
   dom (repositories result') = dom (repositories result)"
proof (induction data_result arbitrary: result)
  case Nil
  then show ?case by simp
next
  case (Cons repo data_result)
  show ?case
  proof (cases "node_name repo")
    case (Inl e)
    with Cons.prems show ?thesis by (simp add: then_do_def)
  next
    case (Inr n)
    show ?thesis
    proof (cases "should_exclude_repo excluded n config \<or> repositories result n = None")
      case True
      with Inr Cons.prems have "add_discussion_data excluded config data_result result = Inr result'"
        by (auto simp: then_do_def split: if_splits)
      from Cons.IH[OF this] show ?thesis .
    next
      case False
      then obtain entry where rec: "repositories result n = Some entry"
        and ne: "\<not> should_exclude_repo excluded n config" by auto
      from Cons.prems Inr rec ne obtain entry' where
        "add_discussion_data excluded config data_result
           (result\<lparr>repositories := (repositories result)(n \<mapsto> entry')\<rparr>) = Inr result'"
        by (auto simp: then_do_def split: sum.splits)
      moreover from rec have "n \<in> dom (repositories result)" by auto
      ultimately show ?thesis
        using Cons.IH by (simp add: insert_absorb dom_if_present)
    qed
  qed
qed

lemma pepy_dom:
  "pepy_loop process projects result = Inr result' \<Longrightarrow>
   dom (repositories result') = dom (repositories result)"
proof (induction projects arbitrary: result)
  case Nil
  then show ?case by simp
next
  case (Cons p projects)
  obtain repo_name data where p: "p = (repo_name, data)" by (cases p)
  show ?case
  proof (cases "repositories result repo_name")
    case None
    with Cons.prems p have "pepy_loop process projects result = Inr result'" by simp
    from Cons.IH[OF this] show ?thesis .
  next
    case (Some entry)
    with Cons.prems p obtain entry' where
      "pepy_loop process projects
         (result\<lparr>repositories := (repositories result)(repo_name \<mapsto> entry')\<rparr>) = Inr result'"
      by (auto simp: then_do_def split: sum.splits)
    moreover from Some have "repo_name \<in> dom (repositories result)" by auto
    ultimately show ?thesis
        using Cons.IH by (simp add: insert_absorb dom_if_present)
  qed
qed

lemma conda_total_dom:
  "dom (repositories (conda_total_loop legacy rows result)) = dom (repositories result)"
proof (induction rows arbitrary: result)
  case Nil
  show ?case by simp
next
  case (Cons row rows)
  obtain pkg_name t where r: "row = (pkg_name, t)" by (cases row)
  show ?case
  proof (cases "repositories result (remap legacy pkg_name)")
    case None
    with Cons.IH[of result] r show ?thesis by (simp add: Let_def)
  next
    case (Some entry)
    then have "remap legacy pkg_name \<in> dom (repositories result)" by auto
    then show ?thesis unfolding r
      by (simp add: Let_def Some Cons.IH insert_absorb dom_if_present)
  qed
qed

lemma conda_monthly_dom:
  "dom (repositories (conda_monthly_loop legacy rows result)) = dom (repositories result)"
proof (induction rows arbitrary: result)
  case Nil
  show ?case by simp
next
  case (Cons row rows)
  obtain pkg_name t where r: "row = (pkg_name, t)" by (cases row)
  show ?case
  proof (cases "repositories result (remap legacy pkg_name)")
    case None
    with Cons.IH[of result] r show ?thesis by (simp add: Let_def)
  next
    case (Some entry)
    then have "remap legacy pkg_name \<in> dom (repositories result)" by auto
    then show ?thesis unfolding r
      by (simp add: Let_def Some Cons.IH insert_absorb dom_if_present)
  qed
qed


lemma conda_total_loop_sum:
  "k \<in> dom (repositories result) \<Longrightarrow>
   conda_total_downloads (the (repositories (conda_total_loop legacy rows result) k)) =
     conda_total_downloads (the (repositories result k))
       + sum_list (map snd (filter (\<lambda>row. remap legacy (fst row) = k) rows))
   \<and> conda_monthly_downloads (the (repositories (conda_total_loop legacy rows result) k)) =
     conda_monthly_downloads (the (repositories result k))"
proof (induction rows arbitrary: result)
  case Nil
  show ?case by simp
next
  case (Cons row rows)
  obtain pkg_name t where r: "row = (pkg_name, t)" by (cases row)
  show ?case
  proof (cases "repositories result (remap legacy pkg_name)")
    case None
    with Cons.prems have "remap legacy pkg_name \<noteq> k" by auto
    with Cons.IH[OF Cons.prems] None r show ?thesis by (simp add: Let_def)
  next
    case (Some entry)
    let ?result = "result\<lparr>repositories := (repositories result)(remap legacy pkg_name \<mapsto>
        entry\<lparr>conda_total_downloads := conda_total_downloads entry + t\<rparr>)\<rparr>"
    from Cons.prems have k: "k \<in> dom (repositories ?result)" by auto
    from Cons.IH[OF k] Some r show ?thesis by (auto simp: Let_def)
  qed
qed

lemma conda_monthly_loop_sum:
  "k \<in> dom (repositories result) \<Longrightarrow>
   conda_monthly_downloads (the (repositories (conda_monthly_loop legacy rows result) k)) =
     conda_monthly_downloads (the (repositories result k))
       + sum_list (map snd (filter (\<lambda>row. remap legacy (fst row) = k) rows))
   \<and> conda_total_downloads (the (repositories (conda_monthly_loop legacy rows result) k)) =
     conda_total_downloads (the (repositories result k))"
proof (induction rows arbitrary: result)
  case Nil
  show ?case by simp
next
  case (Cons row rows)
  obtain pkg_name t where r: "row = (pkg_name, t)" by (cases row)
  show ?case
  proof (cases "repositories result (remap legacy pkg_name)")
    case None
    with Cons.prems have "remap legacy pkg_name \<noteq> k" by auto
    with Cons.IH[OF Cons.prems] None r show ?thesis by (simp add: Let_def)
  next
    case (Some entry)
    let ?result = "result\<lparr>repositories := (repositories result)(remap legacy pkg_name \<mapsto>
        entry\<lparr>conda_monthly_downloads := conda_monthly_downloads entry + t\<rparr>)\<rparr>"
    from Cons.prems have k: "k \<in> dom (repositories ?result)" by auto
    from Cons.IH[OF k] Some r show ?thesis by (auto simp: Let_def)
  qed
qed

text \<open>
  C6, as stated: when every name in the provider's response is absent from the report,
  the step returns the report unchanged. For \<open>add_conda_data\<close> this fails: the response
  names only the former package name, which is not in the report, and the legacy mapping
  sends it to a repository that is, whose total goes from 10 to 15.
\<close>

theorem conda_legacy_name_counterexample:
  "''bg-atlasapi'' \<notin> dom (repositories sample_report)
   \<and> add_conda_data brainglobe_config (Some sample_legacy_file)
         (Rows [(''bg-atlasapi'', 5)] []) sample_report \<noteq> sample_report
   \<and> field_of conda_total_downloads ''brainglobe-atlasapi'' (Inr sample_report) = Some 10
   \<and> field_of conda_total_downloads ''brainglobe-atlasapi''
         (Inr (add_conda_data brainglobe_config (Some sample_legacy_file)
                 (Rows [(''bg-atlasapi'', 5)] []) sample_report)) = Some 15"
proof -
  have before: "field_of conda_total_downloads ''brainglobe-atlasapi'' (Inr sample_report) = Some 10"
    by (simp add: field_of_def sample_report_def)
  have after: "field_of conda_total_downloads ''brainglobe-atlasapi''
         (Inr (add_conda_data brainglobe_config (Some sample_legacy_file)
                 (Rows [(''bg-atlasapi'', 5)] []) sample_report)) = Some 15"
    by (simp add: field_of_def sample_report_def add_conda_data_def legacy_packages_map_def
          brainglobe_config_def default_config_def sample_legacy_file_def remap_def Let_def)
  have absent: "''bg-atlasapi'' \<notin> dom (repositories sample_report)"
    by (simp add: sample_report_def)
  from before after have "add_conda_data brainglobe_config (Some sample_legacy_file)
         (Rows [(''bg-atlasapi'', 5)] []) sample_report \<noteq> sample_report"
    by auto
  with before after absent show ?thesis by simp
qed

text \<open>
  C6, amended. Each of the four steps that only look records up skips, without raising, a
  name that is not in the report, where for \<open>add_conda_data\<close> the name looked up is the
  package name after the legacy mapping; the rest of the response is processed as if the
  entry were not there. So when every name of the response (for \<open>add_conda_data\<close>: every
  mapped name) is absent from the report, the step returns the report unchanged. And no
  step adds a key: a step that returns, returns a report with the same repositories.
\<close>

theorem enrichment_skips_absent_names:
  "(node_name repo = Inr repo_name \<and> repo_name \<notin> dom (repositories result) \<longrightarrow>
      add_issue_and_pr_data excluded config (repo # data_result) result =
        add_issue_and_pr_data excluded config data_result result
      \<and> add_discussion_data excluded config (repo # data_result) result =
        add_discussion_data excluded config data_result result)
   \<and> (repo_name \<notin> dom (repositories result) \<longrightarrow>
        add_downloads_pepy process api_key ((repo_name, data) # projects) result =
          add_downloads_pepy process api_key projects result)
   \<and> (remap (legacy_packages_map config legacy_file) pkg_name \<notin> dom (repositories result) \<longrightarrow>
        add_conda_data config legacy_file (Rows ((pkg_name, t) # total_rows) monthly_rows) result =
          add_conda_data config legacy_file (Rows total_rows monthly_rows) result
        \<and> add_conda_data config legacy_file (Rows total_rows ((pkg_name, t) # monthly_rows)) result =
          add_conda_data config legacy_file (Rows total_rows monthly_rows) result)
   \<and> ((\<forall>repo \<in> set data_result.
          \<exists>n. node_name repo = Inr n \<and> n \<notin> dom (repositories result)) \<longrightarrow>
        add_issue_and_pr_data excluded config data_result result = Inr result
        \<and> add_discussion_data excluded config data_result result = Inr result)
   \<and> ((\<forall>project \<in> set projects. fst project \<notin> dom (repositories result)) \<longrightarrow>
        add_downloads_pepy process api_key projects result = Inr result)
   \<and> ((\<forall>row \<in> set total_rows \<union> set monthly_rows.
          remap (legacy_packages_map config legacy_file) (fst row) \<notin> dom (repositories result)) \<longrightarrow>
        add_conda_data config legacy_file (Rows total_rows monthly_rows) result = result)
   \<and> (\<forall>result'. add_issue_and_pr_data excluded config data_result result = Inr result' \<longrightarrow>
          dom (repositories result') = dom (repositories result))
   \<and> (\<forall>result'. add_discussion_data excluded config data_result result = Inr result' \<longrightarrow>
          dom (repositories result') = dom (repositories result))
   \<and> (\<forall>result'. add_downloads_pepy process api_key projects result = Inr result' \<longrightarrow>
          dom (repositories result') = dom (repositories result))
   \<and> dom (repositories (add_conda_data config legacy_file query result)) = dom (repositories result)"
proof -
  let ?legacy = "legacy_packages_map config legacy_file"
  have skip_nodes: "node_name repo = Inr repo_name \<and> repo_name \<notin> dom (repositories result) \<longrightarrow>
      add_issue_and_pr_data excluded config (repo # data_result) result =
        add_issue_and_pr_data excluded config data_result result
      \<and> add_discussion_data excluded config (repo # data_result) result =
        add_discussion_data excluded config data_result result"
    using issue_skip discussion_skip by blast
  have skip_pepy: "repo_name \<notin> dom (repositories result) \<longrightarrow>
        add_downloads_pepy process api_key ((repo_name, data) # projects) result =
          add_downloads_pepy process api_key projects result"
    by (auto simp: add_downloads_pepy_def split: option.splits)
  have skip_conda: "remap ?legacy pkg_name \<notin> dom (repositories result) \<longrightarrow>
        add_conda_data config legacy_file (Rows ((pkg_name, t) # total_rows) monthly_rows) result =
          add_conda_data config legacy_file (Rows total_rows monthly_rows) result
        \<and> add_conda_data config legacy_file (Rows total_rows ((pkg_name, t) # monthly_rows)) result =
          add_conda_data config legacy_file (Rows total_rows monthly_rows) result"
    by (simp add: add_conda_data_def conda_total_skip conda_monthly_skip conda_total_dom
          del: conda_total_loop.simps conda_monthly_loop.simps)
  have all_nodes: "(\<forall>repo \<in> set data_result.
          \<exists>n. node_name repo = Inr n \<and> n \<notin> dom (repositories result)) \<longrightarrow>
        add_issue_and_pr_data excluded config data_result result = Inr result
        \<and> add_discussion_data excluded config data_result result = Inr result"
    using issue_all_absent discussion_all_absent by blast
  have all_pepy: "(\<forall>project \<in> set projects. fst project \<notin> dom (repositories result)) \<longrightarrow>
        add_downloads_pepy process api_key projects result = Inr result"
    by (simp add: add_downloads_pepy_def pepy_all_absent)
  have all_conda: "(\<forall>row \<in> set total_rows \<union> set monthly_rows.
          remap ?legacy (fst row) \<notin> dom (repositories result)) \<longrightarrow>
        add_conda_data config legacy_file (Rows total_rows monthly_rows) result = result"
    by (simp add: add_conda_data_def conda_total_all_absent conda_monthly_all_absent)
  have dom_issue: "\<forall>result'. add_issue_and_pr_data excluded config data_result result = Inr result' \<longrightarrow>
          dom (repositories result') = dom (repositories result)"
    using issue_dom by blast
  have dom_discussion: "\<forall>result'. add_discussion_data excluded config data_result result = Inr result' \<longrightarrow>
          dom (repositories result') = dom (repositories result)"
    using discussion_dom by blast
  have dom_pepy: "\<forall>result'. add_downloads_pepy process api_key projects result = Inr result' \<longrightarrow>
          dom (repositories result') = dom (repositories result)"
  proof (intro allI impI)
    fix result'
    assume a: "add_downloads_pepy process api_key projects result = Inr result'"
    show "dom (repositories result') = dom (repositories result)"
    proof (cases "api_key = None \<or> api_key = Some []")
      case True
      with a show ?thesis by (auto simp: add_downloads_pepy_def)
    next
      case False
      with a have "pepy_loop process projects result = Inr result'"
        by (simp add: add_downloads_pepy_def)
      then show ?thesis by (rule pepy_dom)
    qed
  qed
  have dom_conda: "dom (repositories (add_conda_data config legacy_file query result)) =
        dom (repositories result)"
    by (cases query) (simp_all add: add_conda_data_def conda_total_dom conda_monthly_dom)
  show ?thesis
    by (intro conjI, fact skip_nodes, fact skip_pepy, fact skip_conda, fact all_nodes,
        fact all_pepy, fact all_conda, fact dom_issue, fact dom_discussion, fact dom_pepy,
        fact dom_conda)
qed

theorem enrichment_skips_absent_names_witness:
  "node_name ghost_node = Inr ''ghost''
   \<and> ''ghost'' \<notin> dom (repositories sample_report)
   \<and> remap (legacy_packages_map brainglobe_config (Some sample_legacy_file)) ''ghost''
        \<notin> dom (repositories sample_report)
   \<and> add_issue_and_pr_data [] brainglobe_config [ghost_node, ghost_node] sample_report
        = Inr sample_report
   \<and> add_discussion_data [] brainglobe_config [ghost_node, ghost_node] sample_report
        = Inr sample_report
   \<and> add_downloads_pepy Inr (Some ''key'') [(''ghost'', sample_numbers)] sample_report
        = Inr sample_report
   \<and> add_conda_data brainglobe_config (Some sample_legacy_file)
         (Rows [(''ghost'', 2)] [(''ghost'', 1)]) sample_report = sample_report
   \<and> dom (repositories (add_conda_data brainglobe_config (Some sample_legacy_file)
         (Rows [(''bg-atlasapi'', 5)] []) sample_report)) = {''brainglobe-atlasapi''}"
proof -
  let ?legacy = "legacy_packages_map brainglobe_config (Some sample_legacy_file)"
  have name: "node_name ghost_node = Inr ''ghost''"
    by (simp add: node_name_def then_do_def ghost_node_def)
  have absent: "''ghost'' \<notin> dom (repositories sample_report)"
    by (simp add: sample_report_def)
  have mapped: "remap ?legacy ''ghost'' \<notin> dom (repositories sample_report)"
    by (simp add: remap_def legacy_packages_map_def brainglobe_config_def default_config_def
          sample_legacy_file_def sample_report_def)
  have nodes: "\<forall>repo \<in> set [ghost_node, ghost_node].
      \<exists>n. node_name repo = Inr n \<and> n \<notin> dom (repositories sample_report)"
    using name absent by simp
  have projects: "\<forall>project \<in> set [(''ghost'', sample_numbers)].
      fst project \<notin> dom (repositories sample_report)"
    using absent by simp
  have rows: "\<forall>row \<in> set [(''ghost'', 2::int)] \<union> set [(''ghost'', 1)].
      remap ?legacy (fst row) \<notin> dom (repositories sample_report)"
    using mapped by simp
  note claim = enrichment_skips_absent_names[where result = sample_report
      and excluded = "[]" and config = brainglobe_config
      and data_result = "[ghost_node, ghost_node]" and process = Inr
      and api_key = "Some ''key''" and projects = "[(''ghost'', sample_numbers)]"
      and legacy_file = "Some sample_legacy_file" and total_rows = "[(''ghost'', 2)]"
      and monthly_rows = "[(''ghost'', 1)]" and query = "Rows [(''bg-atlasapi'', 5)] []"]
  from claim nodes have issue:
    "add_issue_and_pr_data [] brainglobe_config [ghost_node, ghost_node] sample_report
       = Inr sample_report"
    and discussion:
    "add_discussion_data [] brainglobe_config [ghost_node, ghost_node] sample_report
       = Inr sample_report"
    by blast+
  from claim projects have pepy:
    "add_downloads_pepy Inr (Some ''key'') [(''ghost'', sample_numbers)] sample_report
       = Inr sample_report"
    by blast
  from claim rows have conda:
    "add_conda_data brainglobe_config (Some sample_legacy_file)
       (Rows [(''ghost'', 2)] [(''ghost'', 1)]) sample_report = sample_report"
    by blast
  from claim have "dom (repositories (add_conda_data brainglobe_config (Some sample_legacy_file)
         (Rows [(''bg-atlasapi'', 5)] []) sample_report)) = dom (repositories sample_report)"
    by blast
  then have keys: "dom (repositories (add_conda_data brainglobe_config (Some sample_legacy_file)
         (Rows [(''bg-atlasapi'', 5)] []) sample_report)) = {''brainglobe-atlasapi''}"
    by (simp add: sample_report_def)
  from name absent mapped issue discussion pepy conda keys show ?thesis by (intro conjI)
qed

section \<open>Accumulation and assignment\<close>

lemma repository_result_collaborators:
  "repository_result contributors repo_name repo = Inr entry \<Longrightarrow>
   collaborators_count entry = (case contributors repo_name of None \<Rightarrow> 0 | Some n \<Rightarrow> n)"
  by (auto simp: repository_result_def then_do_def default_repository_def split: sum.splits)

text \<open>
  C8, as stated: every download total is updated by adding to the record's current value.
  The PePy step assigns: a record whose \<open>total_download_count\<close> is 5, given a project
  with a total of 7, ends with 7 and not with 12. The contributor count is assigned as
  well, when the record is built: over a record with 4, a count of 3 from the poller
  gives 3.
\<close>

theorem pepy_overwrites_counterexample:
  "field_of total_download_count ''brainglobe-atlasapi'' (Inr sample_report) = Some 5
   \<and> field_of total_download_count ''brainglobe-atlasapi''
        (add_downloads_pepy Inr (Some ''key'') [(''brainglobe-atlasapi'', sample_numbers)]
           sample_report) = Some 7
   \<and> (7::int) \<noteq> 5 + processed_total sample_numbers
   \<and> field_of collaborators_count ''brainglobe-atlasapi'' (Inr sample_report) = Some 4
   \<and> field_of collaborators_count ''brainglobe-atlasapi''
        (build_repositories [''brainglobe-atlasapi'' \<mapsto> 3] [sample_node] sample_report) = Some 3"
  by (simp add: field_of_def sample_report_def add_downloads_pepy_def then_do_def
        sample_numbers_def sample_node_def repository_result_def repository_topics_def
        repository_license_def total_count_or_zero_def as_str_def as_int_def as_bool_def
        default_repository_def)

text \<open>
  C8, amended. The conda download fields are updated by adding in place: after
  \<open>add_conda_data\<close>, the total (and likewise the monthly count) of a record is its value
  before plus the sum of the contributions of all the package names that the legacy
  mapping sends to the record, so that a former name and the current name sum into the
  one record. The PePy download fields are assigned the numbers of the project, not
  added to, and the contributor count of a record is assigned when the record is built,
  from the poller's mapping (0 for a repository the mapping does not have).
\<close>

theorem conda_downloads_accumulate:
  assumes "k \<in> dom (repositories result)"
  shows "conda_total_downloads (the (repositories
             (add_conda_data config legacy_file (Rows total_rows monthly_rows) result) k)) =
           conda_total_downloads (the (repositories result k))
             + sum_list (map snd (filter
                 (\<lambda>row. remap (legacy_packages_map config legacy_file) (fst row) = k) total_rows))
         \<and> conda_monthly_downloads (the (repositories
             (add_conda_data config legacy_file (Rows total_rows monthly_rows) result) k)) =
           conda_monthly_downloads (the (repositories result k))
             + sum_list (map snd (filter
                 (\<lambda>row. remap (legacy_packages_map config legacy_file) (fst row) = k) monthly_rows))
         \<and> (api_key \<noteq> None \<and> api_key \<noteq> Some [] \<and> process data = Inr numbers \<longrightarrow>
              field_of total_download_count k
                (add_downloads_pepy process api_key [(k, data)] result) = Some (processed_total numbers)
              \<and> field_of monthly_download_count k
                (add_downloads_pepy process api_key [(k, data)] result) = Some (processed_monthly numbers)
              \<and> field_of weekly_download_count k
                (add_downloads_pepy process api_key [(k, data)] result) = Some (processed_weekly numbers)
              \<and> field_of daily_download_count k
                (add_downloads_pepy process api_key [(k, data)] result) = Some (processed_daily numbers))
         \<and> (getitem repo ''name'' = Inr (JStr repo_name)
              \<and> build_repositories contributors [repo] result = Inr result' \<longrightarrow>
              field_of collaborators_count repo_name (Inr result') =
                Some (case contributors repo_name of None \<Rightarrow> 0 | Some n \<Rightarrow> n))"
proof -
  let ?legacy = "legacy_packages_map config legacy_file"
  let ?mid = "conda_total_loop ?legacy total_rows result"
  from assms have k: "k \<in> dom (repositories ?mid)" by (simp add: conda_total_dom)
  from conda_total_loop_sum[OF assms, of ?legacy total_rows]
    conda_monthly_loop_sum[OF k, of ?legacy monthly_rows]
  have conda: "conda_total_downloads (the (repositories
             (add_conda_data config legacy_file (Rows total_rows monthly_rows) result) k)) =
           conda_total_downloads (the (repositories result k))
             + sum_list (map snd (filter (\<lambda>row. remap ?legacy (fst row) = k) total_rows))"
    "conda_monthly_downloads (the (repositories
             (add_conda_data config legacy_file (Rows total_rows monthly_rows) result) k)) =
           conda_monthly_downloads (the (repositories result k))
             + sum_list (map snd (filter (\<lambda>row. remap ?legacy (fst row) = k) monthly_rows))"
    by (simp_all add: add_conda_data_def)
  from assms obtain entry where "repositories result k = Some entry" by auto
  then have pepy: "api_key \<noteq> None \<and> api_key \<noteq> Some [] \<and> process data = Inr numbers \<longrightarrow>
              field_of total_download_count k
                (add_downloads_pepy process api_key [(k, data)] result) = Some (processed_total numbers)
              \<and> field_of monthly_download_count k
                (add_downloads_pepy process api_key [(k, data)] result) = Some (processed_monthly numbers)
              \<and> field_of weekly_download_count k
                (add_downloads_pepy process api_key [(k, data)] result) = Some (processed_weekly numbers)
              \<and> field_of daily_download_count k
                (add_downloads_pepy process api_key [(k, data)] result) = Some (processed_daily numbers)"
    by (auto simp: add_downloads_pepy_def then_do_def field_of_def)
  have built: "getitem repo ''name'' = Inr (JStr repo_name)
              \<and> build_repositories contributors [repo] result = Inr result' \<longrightarrow>
              field_of collaborators_count repo_name (Inr result') =
                Some (case contributors repo_name of None \<Rightarrow> 0 | Some n \<Rightarrow> n)"
    by (auto simp: then_do_def as_str_def field_of_def split: sum.splits
          dest: repository_result_collaborators)
  from conda pepy built show ?thesis by (intro conjI)
qed

theorem conda_downloads_accumulate_witness:
  "''brainglobe-atlasapi'' \<in> dom (repositories sample_report)
   \<and> conda_total_downloads (the (repositories
         (add_conda_data brainglobe_config (Some sample_legacy_file)
            (Rows [(''bg-atlasapi'', 5), (''brainglobe-atlasapi'', 7)]
                  [(''bg-atlasapi'', 1), (''brainglobe-atlasapi'', 2)]) sample_report)
         ''brainglobe-atlasapi'')) = 10 + (5 + 7)
   \<and> conda_monthly_downloads (the (repositories
         (add_conda_data brainglobe_config (Some sample_legacy_file)
            (Rows [(''bg-atlasapi'', 5), (''brainglobe-atlasapi'', 7)]
                  [(''bg-atlasapi'', 1), (''brainglobe-atlasapi'', 2)]) sample_report)
         ''brainglobe-atlasapi'')) = 0 + (1 + 2)
   \<and> field_of total_download_count ''brainglobe-atlasapi''
        (add_downloads_pepy Inr (Some ''key'') [(''brainglobe-atlasapi'', sample_numbers)]
           sample_report) = Some 7
   \<and> getitem sample_node ''name'' = Inr (JStr ''brainglobe-atlasapi'')
   \<and> field_of collaborators_count ''brainglobe-atlasapi''
        (build_repositories [''brainglobe-atlasapi'' \<mapsto> 3] [sample_node] sample_report) = Some 3"
proof -
  have node: "getitem sample_node ''name'' = Inr (JStr ''brainglobe-atlasapi'')"
    by (simp add: sample_node_def)
  obtain result' where built:
    "build_repositories [''brainglobe-atlasapi'' \<mapsto> 3] [sample_node] sample_report = Inr result'"
    by (simp add: sample_node_def then_do_def repository_result_def repository_topics_def
          repository_license_def total_count_or_zero_def as_str_def as_int_def as_bool_def)
  have k: "''brainglobe-atlasapi'' \<in> dom (repositories sample_report)"
    by (simp add: sample_report_def)
  have before: "conda_total_downloads (the (repositories sample_report ''brainglobe-atlasapi'')) = 10"
    "conda_monthly_downloads (the (repositories sample_report ''brainglobe-atlasapi'')) = 0"
    by (simp_all add: sample_report_def default_repository_def)
  have legacy: "remap (legacy_packages_map brainglobe_config (Some sample_legacy_file))
      ''bg-atlasapi'' = ''brainglobe-atlasapi''"
    "remap (legacy_packages_map brainglobe_config (Some sample_legacy_file))
      ''brainglobe-atlasapi'' = ''brainglobe-atlasapi''"
    by (simp_all add: remap_def legacy_packages_map_def brainglobe_config_def
          default_config_def sample_legacy_file_def)
  have key: "Some ''key'' \<noteq> None \<and> Some ''key'' \<noteq> Some []
      \<and> (Inr sample_numbers :: py_error + download_numbers) = Inr sample_numbers"
    by simp
  note claim = conda_downloads_accumulate[OF k, where config = brainglobe_config
      and legacy_file = "Some sample_legacy_file"
      and total_rows = "[(''bg-atlasapi'', 5), (''brainglobe-atlasapi'', 7)]"
      and monthly_rows = "[(''bg-atlasapi'', 1), (''brainglobe-atlasapi'', 2)]"
      and api_key = "Some ''key''" and process = Inr and data = sample_numbers
      and numbers = sample_numbers and repo = sample_node
      and repo_name = "''brainglobe-atlasapi''"
      and contributors = "[''brainglobe-atlasapi'' \<mapsto> 3]" and result' = result']
  from claim key have pepy: "field_of total_download_count ''brainglobe-atlasapi''
        (add_downloads_pepy Inr (Some ''key'') [(''brainglobe-atlasapi'', sample_numbers)]
           sample_report) = Some 7"
    by (simp add: sample_numbers_def)
  from claim have conda: "conda_total_downloads (the (repositories
         (add_conda_data brainglobe_config (Some sample_legacy_file)
            (Rows [(''bg-atlasapi'', 5), (''brainglobe-atlasapi'', 7)]
                  [(''bg-atlasapi'', 1), (''brainglobe-atlasapi'', 2)]) sample_report)
         ''brainglobe-atlasapi'')) = 10 + (5 + 7)"
    "conda_monthly_downloads (the (repositories
         (add_conda_data brainglobe_config (Some sample_legacy_file)
            (Rows [(''bg-atlasapi'', 5), (''brainglobe-atlasapi'', 7)]
                  [(''bg-atlasapi'', 1), (''brainglobe-atlasapi'', 2)]) sample_report)
         ''brainglobe-atlasapi'')) = 0 + (1 + 2)"
    by (simp_all add: before legacy)
  from claim node built have contributors: "field_of collaborators_count ''brainglobe-atlasapi''
        (build_repositories [''brainglobe-atlasapi'' \<mapsto> 3] [sample_node] sample_report) = Some 3"
    by simp
  from k conda pepy node contributors show ?thesis by (intro conjI)
qed
section \<open>Missing configuration\<close>

text \<open>
  A \<open>config.yml\<close> without content is outside what follows: \<open>load_config\<close> returns
  \<open>None\<close> for it, and the first \<open>yaml_config.get\<close> of \<open>main\<close> raises \<open>AttributeError\<close>,
  whatever the organisation name in the environment. The run ends with the status 1 of
  an uncaught exception, without the error message of \<open>main\<close>.
\<close>

lemma empty_config_file_raises:
  assumes "provided (GRAPHQL_TOKEN env)" and "provided (PEPY_API_KEY env)"
    and "load_config (config_yml env) = None"
  shows "main env pipeline =
     ([Info StartingFetcher, CreateClient (the (GRAPHQL_TOKEN env)), LoadConfig,
       Uncaught AttributeError], 1)"
  using assms by (auto simp: main_def Let_def)

text \<open>
  C9, as stated: a run missing a required token aborts with a non-zero exit status. A
  run without \<open>GRAPHQL_TOKEN\<close> logs two warnings and returns: the exit status is 0.
\<close>

theorem missing_token_exit_status_counterexample:
  "main (sample_environment\<lparr>GRAPHQL_TOKEN := None\<rparr>) sample_pipeline =
     ([Warning GraphqlTokenNotProvided, Warning MissingSecretsSkippingFetch], 0)"
  by (simp add: main_def sample_environment_def provided_def)

text \<open>
  C9, amended. \<open>main\<close> checks the secrets first. A run without \<open>GRAPHQL_TOKEN\<close> or
  without \<open>PEPY_API_KEY\<close> (unset or empty), whether it has an organisation name or not,
  ends before the client is created, with a warning for each missing secret, then the
  warning that the fetch is skipped, and with the exit status 0. A run that has both
  secrets, whose \<open>config.yml\<close> is absent or holds a mapping (so that \<open>load_config\<close>
  returns a dictionary), and that has no organisation name (\<open>ORGANIZATION_NAME\<close> unset
  or empty, and the entry \<open>organization\<close> absent, an empty string or an empty list)
  creates the client, loads the configuration, logs the error saying which is
  required and ends with the exit status 1, before any pipeline has run. In both kinds
  of run no pipeline runs and no report is written.
\<close>

theorem missing_configuration:
  "(\<not> provided (GRAPHQL_TOKEN env) \<or> \<not> provided (PEPY_API_KEY env) \<longrightarrow>
      snd (main env pipeline) = 0
      \<and> pipelines_run (fst (main env pipeline)) = []
      \<and> reports_written (fst (main env pipeline)) = []
      \<and> last (fst (main env pipeline)) = Warning MissingSecretsSkippingFetch
      \<and> (\<not> provided (GRAPHQL_TOKEN env) \<longrightarrow>
           Warning GraphqlTokenNotProvided \<in> set (fst (main env pipeline)))
      \<and> (\<not> provided (PEPY_API_KEY env) \<longrightarrow>
           Warning PepyApiKeyNotProvided \<in> set (fst (main env pipeline)))
      \<and> (\<forall>token. CreateClient token \<notin> set (fst (main env pipeline))))
   \<and> (provided (GRAPHQL_TOKEN env) \<and> provided (PEPY_API_KEY env)
        \<and> \<not> provided (ORGANIZATION_NAME env)
        \<and> load_config (config_yml env) = Some yaml
        \<and> yaml_organization yaml \<in> {Absent, Name [], Names []} \<longrightarrow>
      main env pipeline =
        ([Info StartingFetcher, CreateClient (the (GRAPHQL_TOKEN env)), LoadConfig,
          Error OrganizationRequired], 1)
      \<and> pipelines_run (fst (main env pipeline)) = []
      \<and> reports_written (fst (main env pipeline)) = [])"
  by (auto simp: main_def Let_def)

theorem missing_configuration_witness:
  "\<not> provided (GRAPHQL_TOKEN (sample_environment\<lparr>GRAPHQL_TOKEN := Some []\<rparr>))
   \<and> main (sample_environment\<lparr>GRAPHQL_TOKEN := Some []\<rparr>) sample_pipeline =
       ([Warning GraphqlTokenNotProvided, Warning MissingSecretsSkippingFetch], 0)
   \<and> \<not> provided (GRAPHQL_TOKEN (sample_environment\<lparr>GRAPHQL_TOKEN := None,
         config_yml := NoFile\<rparr>))
   \<and> \<not> provided (ORGANIZATION_NAME (sample_environment\<lparr>GRAPHQL_TOKEN := None,
         config_yml := NoFile\<rparr>))
   \<and> snd (main (sample_environment\<lparr>GRAPHQL_TOKEN := None, config_yml := NoFile\<rparr>)
         sample_pipeline) = 0
   \<and> reports_written (fst (main (sample_environment\<lparr>GRAPHQL_TOKEN := None,
         config_yml := NoFile\<rparr>) sample_pipeline)) = []
   \<and> provided (GRAPHQL_TOKEN (sample_environment\<lparr>config_yml := NoFile\<rparr>))
   \<and> provided (PEPY_API_KEY (sample_environment\<lparr>config_yml := NoFile\<rparr>))
   \<and> \<not> provided (ORGANIZATION_NAME (sample_environment\<lparr>config_yml := NoFile\<rparr>))
   \<and> yaml_organization (the (load_config (config_yml (sample_environment\<lparr>config_yml := NoFile\<rparr>))))
        = Absent
   \<and> main (sample_environment\<lparr>config_yml := NoFile\<rparr>) sample_pipeline =
       ([Info StartingFetcher, CreateClient ''ghp_token'', LoadConfig,
         Error OrganizationRequired], 1)
   \<and> pipelines_run (fst (main (sample_environment\<lparr>config_yml := NoFile\<rparr>)
        sample_pipeline)) = []
   \<and> reports_written (fst (main (sample_environment\<lparr>config_yml := NoFile\<rparr>)
        sample_pipeline)) = []
   \<and> reports_written (fst (main sample_environment sample_pipeline)) = [''brainglobe'']"
proof -
  let ?no_token = "sample_environment\<lparr>GRAPHQL_TOKEN := Some []\<rparr>"
  let ?neither = "sample_environment\<lparr>GRAPHQL_TOKEN := None, config_yml := NoFile\<rparr>"
  let ?no_org = "sample_environment\<lparr>config_yml := NoFile\<rparr>"
  let ?empty = "\<lparr>yaml_organization = Absent, yaml_includeForks = False,
      yaml_includeArchived = False\<rparr>"
  have h1: "\<not> provided (GRAPHQL_TOKEN ?no_token)"
    by (simp add: provided_def sample_environment_def)
  have n1: "\<not> provided (GRAPHQL_TOKEN ?neither)"
    and n2: "\<not> provided (ORGANIZATION_NAME ?neither)"
    by (simp_all add: provided_def sample_environment_def)
  have h2: "provided (GRAPHQL_TOKEN ?no_org)" "provided (PEPY_API_KEY ?no_org)"
    "\<not> provided (ORGANIZATION_NAME ?no_org)"
    by (simp_all add: provided_def sample_environment_def)
  have h3: "load_config (config_yml ?no_org) = Some ?empty"
    by (simp add: load_config_def)
  have h4: "yaml_organization ?empty \<in> {Absent, Name [], Names []}"
    by simp
  have h5: "yaml_organization (the (load_config (config_yml ?no_org))) = Absent"
    by (simp add: load_config_def)
  have token: "the (GRAPHQL_TOKEN ?no_org) = ''ghp_token''"
    by (simp add: sample_environment_def)
  from missing_configuration[where env = ?no_token and pipeline = sample_pipeline] h1
  have "snd (main ?no_token sample_pipeline) = 0"
    by simp
  moreover have "fst (main ?no_token sample_pipeline) =
      [Warning GraphqlTokenNotProvided, Warning MissingSecretsSkippingFetch]"
    by (simp add: main_def sample_environment_def provided_def)
  ultimately have run1: "main ?no_token sample_pipeline =
      ([Warning GraphqlTokenNotProvided, Warning MissingSecretsSkippingFetch], 0)"
    by (simp add: prod_eq_iff)
  from missing_configuration[where env = ?neither and pipeline = sample_pipeline] n1
  have run2: "snd (main ?neither sample_pipeline) = 0"
    "reports_written (fst (main ?neither sample_pipeline)) = []"
    by simp_all
  from missing_configuration[where env = ?no_org and pipeline = sample_pipeline
      and yaml = ?empty] h2 h3 h4
  have "main ?no_org sample_pipeline =
      ([Info StartingFetcher, CreateClient (the (GRAPHQL_TOKEN ?no_org)), LoadConfig,
        Error OrganizationRequired], 1)"
    "pipelines_run (fst (main ?no_org sample_pipeline)) = []"
    "reports_written (fst (main ?no_org sample_pipeline)) = []"
    by simp_all
  then have run3: "main ?no_org sample_pipeline =
      ([Info StartingFetcher, CreateClient ''ghp_token'', LoadConfig,
        Error OrganizationRequired], 1)"
    "pipelines_run (fst (main ?no_org sample_pipeline)) = []"
    "reports_written (fst (main ?no_org sample_pipeline)) = []"
    by (simp_all only: token)
  have run4: "reports_written (fst (main sample_environment sample_pipeline)) = [''brainglobe'']"
    by (simp add: main_def sample_environment_def provided_def sample_pipeline_def Let_def
          load_config_def)
  show ?thesis using h1 run1 n1 n2 run2 h2 h5 run3 run4 by (intro conjI)
qed

end
